theory Spec2Isabelle
  imports Complex_Main "HOL-Library.Multiset" "HOL-Library.Product_Lexorder" "HOL-Library.Sublist"
begin

section \<open>Data model of the dashboard server (src/server.js)\<close>

text \<open>
  The server is JavaScript. Its values are modelled as follows.
  \<^item> A JavaScript number that is a team id or a win/loss/tie count is an \<open>int\<close>; a
    score or point total is a \<open>rat\<close> (type \<open>number\<close>). Only finite numbers are
    modelled, and addition is exact: the rounding of IEEE doubles is left out. The
    sign of a difference of two finite doubles is the sign of the exact difference, so
    the comparators below order their arguments as the source does.
  \<^item> A field that may be \<open>undefined\<close> is an \<open>option\<close>.
  \<^item> An object used as a dictionary is a map; one whose values are listed
    (\<open>Object.values\<close>) is an association list in property order.
  \<^item> Record fields share one name space in Isabelle, so each field carries a prefix
    for its record: \<open>team_wins\<close> is \<open>team.wins\<close>, \<open>st_wins\<close> the \<open>wins\<close> of a
    standings row, \<open>oi_wins\<close> the \<open>wins\<close> (championship years) of a registry entry.
\<close>

type_synonym number = rat

record ownerInfo =
  oi_owner :: "string option"
  oi_wins :: "string list option"

text \<open>\<open>teamsData\<close>: division name to team id (as a string) to registry entry.\<close>

type_synonym registry = "string \<rightharpoonup> (string \<rightharpoonup> ownerInfo)"

record team =
  team_id :: int
  team_name :: string
  team_wins :: int
  team_losses :: int
  team_ties :: int
  totalPointsScored :: number
  regularSeasonPointsAgainst :: number

record standing =
  st_id :: int
  st_name :: string
  st_owner :: string
  st_championships :: "string list"
  st_wins :: int
  st_losses :: int
  st_ties :: int
  st_points :: number
  st_pointsAgainst :: number

subsection \<open>JavaScript primitives\<close>

text \<open>\<open>Number.prototype.toString\<close> on an integer: decimal digits, with a sign.\<close>

definition digitChar :: "nat \<Rightarrow> char" where
  "digitChar d = ''0123456789'' ! d"

fun digitsOf :: "nat \<Rightarrow> string" where
  "digitsOf n = (if n < 10 then [digitChar n] else digitsOf (n div 10) @ [digitChar (n mod 10)])"

declare digitsOf.simps [simp del]

definition toString :: "int \<Rightarrow> string" where
  "toString i = (if i < 0 then CHR ''-'' # digitsOf (nat (- i)) else digitsOf (nat i))"

text \<open>\<open>s || d\<close> on a string that may be undefined: the empty string is falsy too.\<close>

definition orStr :: "string option \<Rightarrow> string \<Rightarrow> string" where
  "orStr s d = (case s of None \<Rightarrow> d | Some v \<Rightarrow> if v = [] then d else v)"

text \<open>\<open>n || d\<close> on a number that may be undefined: zero is falsy too.\<close>

definition orNum :: "'n::zero option \<Rightarrow> 'n \<Rightarrow> 'n" where
  "orNum n d = (case n of None \<Rightarrow> d | Some v \<Rightarrow> if v = 0 then d else v)"

text \<open>
  \<open>Array.prototype.sort(cmp)\<close>. ECMAScript (2019 and later) requires the sort to be
  stable, and for a consistent comparator the result is the one stable arrangement in
  which \<open>a\<close> stands before \<open>b\<close> whenever \<open>cmp a b < 0\<close>. Insertion from the right
  computes that arrangement: an element is put before the first element it does not
  exceed, so it stays ahead of the equal elements that followed it in the input.
  \<open>jsSort\<close> is the sort of the standings, whose comparator gives a number on all
  modelled values and is consistent. The comparators of the two roster sorts can give
  \<open>NaN\<close>; their sort is \<open>v8Sort\<close> below.
\<close>

fun insertBy :: "('a \<Rightarrow> 'a \<Rightarrow> 'n::linordered_idom) \<Rightarrow> 'a \<Rightarrow> 'a list \<Rightarrow> 'a list" where
  "insertBy cmp x [] = [x]"
| "insertBy cmp x (y # ys) = (if cmp x y \<le> 0 then x # y # ys else y # insertBy cmp x ys)"

definition jsSort :: "('a \<Rightarrow> 'a \<Rightarrow> 'n::linordered_idom) \<Rightarrow> 'a list \<Rightarrow> 'a list" where
  "jsSort cmp xs = foldr (insertBy cmp) xs []"

subsection \<open>The sort of V8\<close>

text \<open>
  When a comparator can return \<open>NaN\<close> it is not consistent, and ECMAScript leaves the
  order to the engine. The server runs on Node, whose engine V8 sorts an array of fewer
  than 64 elements in two steps (\<open>ArrayTimSortImpl\<close> in \<open>array-sort.tq\<close>):
  \<^item> \<open>CountAndMakeRun\<close> finds the longest run at the start of the array, which is
    descending when \<open>cmp(a[1], a[0]) < 0\<close> and continues while each element compares
    \<open>< 0\<close> with the one before it, and ascending otherwise, continuing while no
    element compares \<open>< 0\<close> with the one before it; a descending run is reversed;
  \<^item> \<open>BinaryInsertionSort\<close> inserts each remaining element into the sorted prefix
    at the position a binary search finds: it goes left of the middle element when
    \<open>cmp(pivot, a[mid]) < 0\<close> and right of it otherwise.
  The engine calls the comparator through \<open>SortCompare\<close>, which turns \<open>NaN\<close> into
  \<open>+0\<close> (\<open>sortCompare\<close> below). An array of 64 or more elements is cut into
  several such runs that are then merged; with a comparator that follows a key the
  result is the same stable arrangement (\<open>v8Sort_sort_key\<close> and \<open>jsSort_sort_key\<close>
  below), and for longer arrays with \<open>NaN\<close> comparisons the model is the two steps
  above on the whole array. The binary search reads \<open>xs ! mid\<close> only with
  \<open>mid < right \<le> length xs\<close>.
\<close>

function searchPos :: "('a \<Rightarrow> 'a \<Rightarrow> 'n::linordered_idom) \<Rightarrow> 'a \<Rightarrow> 'a list \<Rightarrow> nat \<Rightarrow> nat \<Rightarrow> nat" where
  "searchPos cmp pivot xs left right =
     (if left < right then
        (let mid = left + (right - left) div 2 in
         if cmp pivot (xs ! mid) < 0 then searchPos cmp pivot xs left mid
         else searchPos cmp pivot xs (mid + 1) right)
      else left)"
  by pat_completeness auto
termination
  by (relation "measure (\<lambda>(cmp, pivot, xs, left, right). right - left)") auto

declare searchPos.simps [simp del]

fun binaryInsertionSort :: "('a \<Rightarrow> 'a \<Rightarrow> 'n::linordered_idom) \<Rightarrow> 'a list \<Rightarrow> 'a list \<Rightarrow> 'a list" where
  "binaryInsertionSort cmp run [] = run"
| "binaryInsertionSort cmp run (pivot # rest) =
     (let left = searchPos cmp pivot run 0 (length run)
      in binaryInsertionSort cmp (take left run @ pivot # drop left run) rest)"

fun runLength :: "bool \<Rightarrow> ('a \<Rightarrow> 'a \<Rightarrow> 'n::linordered_idom) \<Rightarrow> 'a \<Rightarrow> 'a list \<Rightarrow> nat" where
  "runLength isDescending cmp previous [] = 0"
| "runLength isDescending cmp previous (current # rest) =
     (if (if isDescending then 0 \<le> cmp current previous else cmp current previous < 0) then 0
      else Suc (runLength isDescending cmp current rest))"

definition countAndMakeRun ::
  "('a \<Rightarrow> 'a \<Rightarrow> 'n::linordered_idom) \<Rightarrow> 'a list \<Rightarrow> 'a list \<times> 'a list" where
  "countAndMakeRun cmp xs =
     (case xs of
        x0 # x1 # rest \<Rightarrow>
          (let isDescending = (cmp x1 x0 < 0);
               n = 2 + runLength isDescending cmp x1 rest
           in (if isDescending then rev (take n xs) else take n xs, drop n xs))
      | _ \<Rightarrow> (xs, []))"

definition v8Sort :: "('a \<Rightarrow> 'a \<Rightarrow> 'n::linordered_idom) \<Rightarrow> 'a list \<Rightarrow> 'a list" where
  "v8Sort cmp xs =
     (case countAndMakeRun cmp xs of (run, rest) \<Rightarrow> binaryInsertionSort cmp run rest)"

text \<open>\<open>SortCompare\<close>: a comparator result that is \<open>NaN\<close> (here \<open>None\<close>) counts as 0.\<close>

definition sortCompare :: "int option \<Rightarrow> int" where
  "sortCompare v = (case v of None \<Rightarrow> 0 | Some n \<Rightarrow> n)"

section \<open>Ownership registry lookups\<close>

text \<open>
  \<open>teamsData[division]?.[key]\<close>. The keys the server reads are decimal team ids
  and, in the roster handler, the text of the request. For a text that names an
  inherited property the source reads a function or the prototype object, which has
  neither \<open>owner\<close> nor \<open>wins\<close>: the owner and championships are then those of a
  missing entry, as in the model.
\<close>

definition ownerInfoOf :: "registry \<Rightarrow> string \<Rightarrow> string \<Rightarrow> ownerInfo option" where
  "ownerInfoOf teamsData division k =
     (case teamsData division of None \<Rightarrow> None | Some d \<Rightarrow> d k)"

text \<open>\<open>ownerInfo?.owner || ''\<close>\<close>

definition ownerOf :: "ownerInfo option \<Rightarrow> string" where
  "ownerOf info = orStr (case info of None \<Rightarrow> None | Some i \<Rightarrow> oi_owner i) []"

text \<open>\<open>ownerInfo?.wins?.filter(year => year !== '') || []\<close>\<close>

definition championshipsOf :: "ownerInfo option \<Rightarrow> string list" where
  "championshipsOf info =
     (case info of
        None \<Rightarrow> []
      | Some i \<Rightarrow> (case oi_wins i of None \<Rightarrow> [] | Some ws \<Rightarrow> filter (\<lambda>year. year \<noteq> []) ws))"

section \<open>Standings Builder (getLeagueData, lines 57-74)\<close>

definition standingRow :: "registry \<Rightarrow> string \<Rightarrow> team \<Rightarrow> standing" where
  "standingRow teamsData division t =
     (let info = ownerInfoOf teamsData division (toString (team_id t)) in
      \<lparr> st_id = team_id t,
        st_name = team_name t,
        st_owner = ownerOf info,
        st_championships = championshipsOf info,
        st_wins = team_wins t,
        st_losses = team_losses t,
        st_ties = team_ties t,
        st_points = totalPointsScored t,
        st_pointsAgainst = regularSeasonPointsAgainst t \<rparr>)"

definition standingsCmp :: "standing \<Rightarrow> standing \<Rightarrow> number" where
  "standingsCmp a b =
     (if st_wins b \<noteq> st_wins a then of_int (st_wins b - st_wins a)
      else st_points b - st_points a)"

definition standings :: "registry \<Rightarrow> string \<Rightarrow> team list \<Rightarrow> standing list" where
  "standings teamsData division teams =
     jsSort standingsCmp (map (standingRow teamsData division) teams)"

section \<open>The league provider (espn-fantasy-football-api client)\<close>

record player =
  fullName :: string
  defaultPosition :: string
  proTeamAbbreviation :: string
  rosteredPosition :: string
  totalPoints :: "number option"
  projectedPointBreakdown :: "(string \<times> number) list option"

record boxscore =
  homeTeamId :: int
  awayTeamId :: int
  homeScore :: number
  awayScore :: number
  homeRoster :: "player list"
  awayRoster :: "player list"

record leagueInfo =
  li_name :: string
  currentMatchupPeriodId :: int
  currentScoringPeriodId :: int

text \<open>
  A client's three calls. Each returns a promise; \<open>Inl msg\<close> is a promise that rejects
  with an error whose message is \<open>msg\<close>, \<open>Inr v\<close> one that resolves to \<open>v\<close>. The
  arguments are \<open>seasonId\<close>, then \<open>matchupPeriodId\<close> (boxscores only), then
  \<open>scoringPeriodId\<close>.
\<close>

record client =
  getLeagueInfo :: "int \<Rightarrow> string + leagueInfo"
  getTeamsAtWeek :: "int \<Rightarrow> int \<Rightarrow> string + team list"
  getBoxscoreForWeek :: "int \<Rightarrow> int \<Rightarrow> int \<Rightarrow> string + boxscore list"

text \<open>
  What the module holds after start-up: the registry read from \<open>teams.json\<close>, the two
  clients and the season ids of \<open>LEAGUES\<close>.
\<close>

record env =
  teamsData :: registry
  greenClient :: client
  whiteClient :: client
  greenSeasonId :: int
  whiteSeasonId :: int

text \<open>The calls a handler has issued to the provider, in order.\<close>

datatype upstream_call = GetLeagueInfo | GetBoxscoreForWeek | GetTeamsAtWeek

text \<open>\<open>res.json(body)\<close> is \<open>Json body\<close> (status 200); \<open>res.status(n).json({error: msg})\<close> is \<open>Error n msg\<close>.\<close>

datatype 'b response = Json 'b | Error nat string

fun status :: "'b response \<Rightarrow> nat" where
  "status (Json b) = 200"
| "status (Error n msg) = n"

text \<open>\<open>division === 'green' ? greenClient : whiteClient\<close> and \<open>LEAGUES[division].seasonId\<close>,
  for a division that passed the check \<open>['green', 'white'].includes(division)\<close>.\<close>

definition clientFor :: "env \<Rightarrow> string \<Rightarrow> client" where
  "clientFor e division = (if division = ''green'' then greenClient e else whiteClient e)"

definition seasonFor :: "env \<Rightarrow> string \<Rightarrow> int" where
  "seasonFor e division = (if division = ''green'' then greenSeasonId e else whiteSeasonId e)"

definition validDivision :: "string \<Rightarrow> bool" where
  "validDivision division = (division \<in> set [''green'', ''white''])"

subsection \<open>parseInt\<close>

text \<open>
  \<open>parseInt(s)\<close> with no radix: leading white space is skipped, then an optional sign,
  then \<open>0x\<close> or \<open>0X\<close> selects radix 16; the longest prefix of digits is read and the
  rest ignored. With no digit the result is \<open>NaN\<close>, here \<open>None\<close>. White space is the
  ASCII part of ECMAScript's set, and the value is exact (a double rounds above
  \<open>2^53\<close>). \<open>x === parseInt(s)\<close> for a number \<open>x\<close> is \<open>Some x = parseInt s\<close>: \<open>NaN\<close>
  equals nothing.
\<close>

fun indexOf :: "'a list \<Rightarrow> 'a \<Rightarrow> nat option" where
  "indexOf [] c = None"
| "indexOf (x # xs) c = (if x = c then Some 0 else map_option Suc (indexOf xs c))"

definition isWhiteSpace :: "char \<Rightarrow> bool" where
  "isWhiteSpace c = (c \<in> set [CHR '' '', CHR 0x09, CHR 0x0A, CHR 0x0B, CHR 0x0C, CHR 0x0D])"

definition digitValue :: "nat \<Rightarrow> char \<Rightarrow> nat option" where
  "digitValue radix c =
     (if radix = 16 then
        (case indexOf ''0123456789abcdef'' c of
           Some d \<Rightarrow> Some d
         | None \<Rightarrow> indexOf ''0123456789ABCDEF'' c)
      else indexOf ''0123456789'' c)"

definition readDigits :: "nat \<Rightarrow> string \<Rightarrow> int option" where
  "readDigits radix s =
     (let ds = takeWhile (\<lambda>c. digitValue radix c \<noteq> None) s in
      if ds = [] then None
      else Some (foldl (\<lambda>acc c. acc * int radix + int (the (digitValue radix c))) 0 ds))"

definition stripPrefix :: "string \<Rightarrow> nat \<times> string" where
  "stripPrefix s =
     (case s of
        c0 # c1 # r \<Rightarrow>
          (if c0 = CHR ''0'' \<and> (c1 = CHR ''x'' \<or> c1 = CHR ''X'') then (16, r) else (10, s))
      | _ \<Rightarrow> (10, s))"

definition parseInt :: "string \<Rightarrow> int option" where
  "parseInt s =
     (let s1 = dropWhile isWhiteSpace s;
          sgn = (case s1 of c # r \<Rightarrow> if c = CHR ''-'' then - 1 else 1 | [] \<Rightarrow> 1);
          s2 = (case s1 of c # r \<Rightarrow> if c = CHR ''-'' \<or> c = CHR ''+'' then r else s1 | [] \<Rightarrow> s1);
          (radix, s3) = stripPrefix s2
      in map_option (\<lambda>n. sgn * n) (readDigits radix s3))"

section \<open>getLeagueData and getMatchups\<close>

record leagueData =
  ld_name :: string
  ld_currentWeek :: int
  ld_standings :: "standing list"

text \<open>
  The client object is told from \<open>greenClient\<close> by identity
  (\<open>client === greenClient ? 'green' : 'white'\<close>); the model passes the division the
  caller chose the client by, which is the same on every call site of the server.
  A result is the calls issued and the value the promise settles to.
\<close>

definition getLeagueData ::
  "env \<Rightarrow> string \<Rightarrow> int \<Rightarrow> upstream_call list \<times> (string + leagueData)" where
  "getLeagueData e division seasonId =
     (case getLeagueInfo (clientFor e division) seasonId of
        Inl msg \<Rightarrow> ([GetLeagueInfo], Inl msg)
      | Inr info \<Rightarrow>
          (case getTeamsAtWeek (clientFor e division) seasonId (currentScoringPeriodId info) of
             Inl msg \<Rightarrow> ([GetLeagueInfo, GetTeamsAtWeek], Inl msg)
           | Inr teams \<Rightarrow>
               ([GetLeagueInfo, GetTeamsAtWeek],
                Inr \<lparr> ld_name = li_name info,
                      ld_currentWeek = currentMatchupPeriodId info,
                      ld_standings =
                        standings (teamsData e) (if division = ''green'' then ''green'' else ''white'') teams \<rparr>)))"

record teamRef =
  tr_name :: string
  tr_id :: int

record matchupSummary =
  ms_homeTeam :: string
  ms_homeTeamId :: int
  ms_homeScore :: number
  ms_awayTeam :: string
  ms_awayTeamId :: int
  ms_awayScore :: number

text \<open>
  \<open>teamMap\<close> is filled by \<open>forEach\<close>, a later team with the same id replacing an
  earlier one. Its keys are decimal numerals, which name no inherited property of an
  object, so a missing key reads as \<open>undefined\<close>.
\<close>

definition teamMap :: "team list \<Rightarrow> (int \<rightharpoonup> teamRef)" where
  "teamMap teams =
     foldl (\<lambda>m t. m(team_id t \<mapsto> \<lparr> tr_name = team_name t, tr_id = team_id t \<rparr>)) Map.empty teams"

definition summarize :: "(int \<rightharpoonup> teamRef) \<Rightarrow> boxscore \<Rightarrow> matchupSummary" where
  "summarize tm box =
     \<lparr> ms_homeTeam = orStr (map_option tr_name (tm (homeTeamId box))) ''Unknown'',
       ms_homeTeamId = homeTeamId box,
       ms_homeScore = homeScore box,
       ms_awayTeam = orStr (map_option tr_name (tm (awayTeamId box))) ''Unknown'',
       ms_awayTeamId = awayTeamId box,
       ms_awayScore = awayScore box \<rparr>"

text \<open>
  \<open>Promise.all\<close> issues both calls before either settles. When both reject, the one
  that rejects first in time gives the message; the model takes the first in the array.
\<close>

definition getMatchups ::
  "client \<Rightarrow> int \<Rightarrow> int \<Rightarrow> upstream_call list \<times> (string + matchupSummary list)" where
  "getMatchups c seasonId week =
     ([GetBoxscoreForWeek, GetTeamsAtWeek],
      (case getBoxscoreForWeek c seasonId week week of
         Inl msg \<Rightarrow> Inl msg
       | Inr scoreboard \<Rightarrow>
           (case getTeamsAtWeek c seasonId week of
              Inl msg \<Rightarrow> Inl msg
            | Inr teams \<Rightarrow> Inr (map (summarize (teamMap teams)) scoreboard))))"

section \<open>GET /api/league/:division\<close>

definition leagueHandler ::
  "env \<Rightarrow> string \<Rightarrow> upstream_call list \<times> (leagueData \<times> matchupSummary list) response" where
  "leagueHandler e division =
     (if \<not> validDivision division then ([], Error 400 ''Invalid division'')
      else
        (case getLeagueData e division (seasonFor e division) of
           (calls1, Inl msg) \<Rightarrow> (calls1, Error 500 msg)
         | (calls1, Inr data) \<Rightarrow>
             (case getMatchups (clientFor e division) (seasonFor e division) (ld_currentWeek data) of
                (calls2, Inl msg) \<Rightarrow> (calls1 @ calls2, Error 500 msg)
              | (calls2, Inr matchups) \<Rightarrow> (calls1 @ calls2, Json (data, matchups)))))"

section \<open>Slot priority\<close>

text \<open>
  \<open>positionOrder\<close> is an object literal (the same in both detail handlers), read as
  \<open>positionOrder[slot] || 99\<close>. A property read on an object literal finds the ten own
  properties and, for any other name, the properties every object inherits from
  \<open>Object.prototype\<close>: eleven functions and, under \<open>__proto__\<close>, the prototype object
  itself. Such a value is truthy, so \<open>|| 99\<close> keeps it, and it is no number: the
  subtraction in the comparator converts it with \<open>ToNumber\<close>, which gives \<open>NaN\<close>.
  Any other name reads as \<open>undefined\<close> and gets the default 99.
\<close>

datatype jsValue = JsNumber int | JsUndefined | JsObject

definition objectPrototypeKeys :: "string list" where
  "objectPrototypeKeys =
     [''constructor'', ''toString'', ''toLocaleString'', ''valueOf'', ''hasOwnProperty'',
      ''isPrototypeOf'', ''propertyIsEnumerable'', ''__proto__'', ''__defineGetter__'',
      ''__defineSetter__'', ''__lookupGetter__'', ''__lookupSetter__'']"

definition positionOrder :: "(string \<times> int) list" where
  "positionOrder =
     [(''QB'', 1), (''RB'', 2), (''WR'', 3), (''TE'', 4), (''FLEX'', 5), (''RB/WR/TE'', 5),
      (''D/ST'', 6), (''K'', 7), (''Bench'', 99), (''IR'', 100)]"

text \<open>\<open>obj[k]\<close> for an object literal \<open>obj\<close> with numeric own properties.\<close>

definition getProperty :: "(string \<times> int) list \<Rightarrow> string \<Rightarrow> jsValue" where
  "getProperty obj k =
     (case map_of obj k of
        Some n \<Rightarrow> JsNumber n
      | None \<Rightarrow> if k \<in> set objectPrototypeKeys then JsObject else JsUndefined)"

text \<open>\<open>v || d\<close>: zero and \<open>undefined\<close> are falsy, an object is truthy.\<close>

definition orDefault :: "jsValue \<Rightarrow> int \<Rightarrow> jsValue" where
  "orDefault v d =
     (case v of
        JsNumber n \<Rightarrow> if n = 0 then JsNumber d else JsNumber n
      | JsUndefined \<Rightarrow> JsNumber d
      | JsObject \<Rightarrow> JsObject)"

text \<open>\<open>ToNumber\<close>, with \<open>None\<close> for \<open>NaN\<close>.\<close>

definition toNumber :: "jsValue \<Rightarrow> int option" where
  "toNumber v = (case v of JsNumber n \<Rightarrow> Some n | JsUndefined \<Rightarrow> None | JsObject \<Rightarrow> None)"

text \<open>\<open>x - y\<close> on operands already converted to numbers: \<open>NaN\<close> when either is.\<close>

definition jsMinus :: "int option \<Rightarrow> int option \<Rightarrow> int option" where
  "jsMinus x y = (case x of None \<Rightarrow> None | Some a \<Rightarrow> (case y of None \<Rightarrow> None | Some b \<Rightarrow> Some (a - b)))"

text \<open>The operand \<open>(positionOrder[slot] || 99)\<close> of the comparators, as a number.\<close>

definition slotPriority :: "string \<Rightarrow> int option" where
  "slotPriority slot = toNumber (orDefault (getProperty positionOrder slot) 99)"

section \<open>GET /api/roster/:division/:teamId\<close>

text \<open>
  Both detail handlers fetch the same way (lines 163-177 and 229-243): the league info
  first, then the boxscores and the teams of the current week together.
\<close>

definition fetchCurrentWeek ::
  "client \<Rightarrow> int \<Rightarrow> upstream_call list \<times> (string + boxscore list \<times> team list)" where
  "fetchCurrentWeek c seasonId =
     (case getLeagueInfo c seasonId of
        Inl msg \<Rightarrow> ([GetLeagueInfo], Inl msg)
      | Inr info \<Rightarrow>
          ([GetLeagueInfo, GetBoxscoreForWeek, GetTeamsAtWeek],
           (case getBoxscoreForWeek c seasonId (currentMatchupPeriodId info) (currentScoringPeriodId info) of
              Inl msg \<Rightarrow> Inl msg
            | Inr boxscores \<Rightarrow>
                (case getTeamsAtWeek c seasonId (currentScoringPeriodId info) of
                   Inl msg \<Rightarrow> Inl msg
                 | Inr teams \<Rightarrow> Inr (boxscores, teams)))))"

record rosterEntry =
  re_name :: string
  re_position :: string
  re_proTeam :: string
  re_isStarter :: bool
  re_slotPosition :: string

record rosterBody =
  rb_teamId :: "int option"
  rb_teamName :: string
  rb_owner :: string
  rb_championships :: "string list"
  rb_roster :: "rosterEntry list"

definition teamBoxscore :: "boxscore list \<Rightarrow> string \<Rightarrow> boxscore option" where
  "teamBoxscore boxscores teamId =
     find (\<lambda>box. Some (homeTeamId box) = parseInt teamId \<or> Some (awayTeamId box) = parseInt teamId)
       boxscores"

definition rosterEntryOf :: "player \<Rightarrow> rosterEntry" where
  "rosterEntryOf p =
     \<lparr> re_name = fullName p,
       re_position = defaultPosition p,
       re_proTeam = proTeamAbbreviation p,
       re_isStarter = (rosteredPosition p \<noteq> ''Bench'' \<and> rosteredPosition p \<noteq> ''IR''),
       re_slotPosition = rosteredPosition p \<rparr>"

definition rosterCmp :: "rosterEntry \<Rightarrow> rosterEntry \<Rightarrow> int option" where
  "rosterCmp a b =
     (if re_isStarter a \<and> \<not> re_isStarter b then Some (- 1)
      else if \<not> re_isStarter a \<and> re_isStarter b then Some 1
      else jsMinus (slotPriority (re_slotPosition a)) (slotPriority (re_slotPosition b)))"

definition formattedRoster :: "player list \<Rightarrow> rosterEntry list" where
  "formattedRoster roster =
     v8Sort (\<lambda>a b. sortCompare (rosterCmp a b)) (map rosterEntryOf roster)"

text \<open>
  The handler after the fetch (lines 179-215). The registry is read at the \<open>teamId\<close>
  of the request as it was written, the boxscore and the team at \<open>parseInt(teamId)\<close>.
\<close>

definition rosterResult ::
  "registry \<Rightarrow> string \<Rightarrow> string \<Rightarrow> boxscore list \<Rightarrow> team list \<Rightarrow> rosterBody response" where
  "rosterResult td division teamId boxscores teams =
     (case teamBoxscore boxscores teamId of
        None \<Rightarrow> Error 404 ''Team not found''
      | Some box \<Rightarrow>
          (let t = find (\<lambda>t. Some (team_id t) = parseInt teamId) teams;
               info = ownerInfoOf td division teamId;
               isHome = (Some (homeTeamId box) = parseInt teamId);
               roster = (if isHome then homeRoster box else awayRoster box)
           in Json \<lparr> rb_teamId = parseInt teamId,
                     rb_teamName = orStr (map_option team_name t) ''Unknown'',
                     rb_owner = ownerOf info,
                     rb_championships = championshipsOf info,
                     rb_roster = formattedRoster roster \<rparr>))"

definition rosterHandler ::
  "env \<Rightarrow> string \<Rightarrow> string \<Rightarrow> upstream_call list \<times> rosterBody response" where
  "rosterHandler e division teamId =
     (if \<not> validDivision division then ([], Error 400 ''Invalid division'')
      else
        (case fetchCurrentWeek (clientFor e division) (seasonFor e division) of
           (calls, Inl msg) \<Rightarrow> (calls, Error 500 msg)
         | (calls, Inr (boxscores, teams)) \<Rightarrow>
             (calls, rosterResult (teamsData e) division teamId boxscores teams)))"

section \<open>GET /api/matchup/:division/:homeTeamId/:awayTeamId\<close>

record detailEntry =
  de_name :: string
  de_position :: string
  de_points :: number
  de_projected :: number

record matchupBody =
  mb_homeTeam :: string
  mb_homeOwner :: string
  mb_homeScore :: number
  mb_homeRoster :: "detailEntry list"
  mb_homeChampionships :: "string list"
  mb_awayTeam :: string
  mb_awayOwner :: string
  mb_awayScore :: number
  mb_awayChampionships :: "string list"
  mb_awayRoster :: "detailEntry list"

definition matchup :: "boxscore list \<Rightarrow> string \<Rightarrow> string \<Rightarrow> boxscore option" where
  "matchup boxscores homeId awayId =
     find (\<lambda>box.
             (Some (homeTeamId box) = parseInt homeId \<and> Some (awayTeamId box) = parseInt awayId) \<or>
             (Some (homeTeamId box) = parseInt awayId \<and> Some (awayTeamId box) = parseInt homeId))
       boxscores"

text \<open>\<open>Object.values(o)\<close>, and the sum \<open>.reduce((a, b) => a + b, 0)\<close>.\<close>

definition objectValues :: "(string \<times> 'v) list \<Rightarrow> 'v list" where
  "objectValues obj = map snd obj"

definition detailEntryOf :: "player \<Rightarrow> detailEntry" where
  "detailEntryOf p =
     \<lparr> de_name = fullName p,
       de_position = rosteredPosition p,
       de_points = orNum (totalPoints p) 0,
       de_projected =
         (case projectedPointBreakdown p of
            Some breakdown \<Rightarrow> foldl (\<lambda>a b. a + b) 0 (objectValues breakdown)
          | None \<Rightarrow> 0) \<rparr>"

definition detailCmp :: "detailEntry \<Rightarrow> detailEntry \<Rightarrow> int option" where
  "detailCmp a b = jsMinus (slotPriority (de_position a)) (slotPriority (de_position b))"

definition formatRoster :: "player list \<Rightarrow> detailEntry list" where
  "formatRoster roster =
     v8Sort (\<lambda>a b. sortCompare (detailCmp a b))
       (map detailEntryOf
          (filter (\<lambda>p. rosteredPosition p \<noteq> ''Bench'' \<and> rosteredPosition p \<noteq> ''IR'') roster))"

text \<open>\<open>teams.find(t => t.id === id)?.name || 'Unknown'\<close>\<close>

definition teamNameOf :: "team list \<Rightarrow> int \<Rightarrow> string" where
  "teamNameOf teams i = orStr (map_option team_name (find (\<lambda>t. team_id t = i) teams)) ''Unknown''"

text \<open>The response built from a located boxscore (lines 254-290).\<close>

definition matchupBodyOf :: "registry \<Rightarrow> string \<Rightarrow> boxscore \<Rightarrow> team list \<Rightarrow> matchupBody" where
  "matchupBodyOf td division box teams =
     \<lparr> mb_homeTeam = teamNameOf teams (homeTeamId box),
       mb_homeOwner = ownerOf (ownerInfoOf td division (toString (homeTeamId box))),
       mb_homeScore = homeScore box,
       mb_homeRoster = formatRoster (homeRoster box),
       mb_homeChampionships = championshipsOf (ownerInfoOf td division (toString (homeTeamId box))),
       mb_awayTeam = teamNameOf teams (awayTeamId box),
       mb_awayOwner = ownerOf (ownerInfoOf td division (toString (awayTeamId box))),
       mb_awayScore = awayScore box,
       mb_awayChampionships = championshipsOf (ownerInfoOf td division (toString (awayTeamId box))),
       mb_awayRoster = formatRoster (awayRoster box) \<rparr>"

definition matchupResult ::
  "registry \<Rightarrow> string \<Rightarrow> string \<Rightarrow> string \<Rightarrow> boxscore list \<Rightarrow> team list \<Rightarrow> matchupBody response" where
  "matchupResult td division homeId awayId boxscores teams =
     (case matchup boxscores homeId awayId of
        None \<Rightarrow> Error 404 ''Matchup not found''
      | Some box \<Rightarrow> Json (matchupBodyOf td division box teams))"

definition matchupHandler ::
  "env \<Rightarrow> string \<Rightarrow> string \<Rightarrow> string \<Rightarrow> upstream_call list \<times> matchupBody response" where
  "matchupHandler e division homeId awayId =
     (if \<not> validDivision division then ([], Error 400 ''Invalid division'')
      else
        (case fetchCurrentWeek (clientFor e division) (seasonFor e division) of
           (calls, Inl msg) \<Rightarrow> (calls, Error 500 msg)
         | (calls, Inr (boxscores, teams)) \<Rightarrow>
             (calls, matchupResult (teamsData e) division homeId awayId boxscores teams)))"

section \<open>The slot priority of the specification, and sort keys\<close>

text \<open>
  The priority table as the specification words it: QB 1, RB 2, WR 3, TE 4, FLEX and
  RB/WR/TE 5, D/ST 6, K 7, Bench 99, IR 100, and 99 for every slot that is not
  recognized. It is compared with the lookup of the source in \<open>slotPriority_spec\<close>.
\<close>

definition specPriority :: "string \<Rightarrow> int" where
  "specPriority slot =
     (if slot = ''QB'' then 1
      else if slot = ''RB'' then 2
      else if slot = ''WR'' then 3
      else if slot = ''TE'' then 4
      else if slot = ''FLEX'' \<or> slot = ''RB/WR/TE'' then 5
      else if slot = ''D/ST'' then 6
      else if slot = ''K'' then 7
      else if slot = ''Bench'' then 99
      else if slot = ''IR'' then 100
      else 99)"


text \<open>A roster none of whose slots is named as an inherited property.\<close>

definition plainSlots :: "player list \<Rightarrow> bool" where
  "plainSlots roster = list_all (\<lambda>p. rosteredPosition p \<notin> set objectPrototypeKeys) roster"

section \<open>Example inputs\<close>

text \<open>A registry with two green teams, one of them with an empty placeholder year.\<close>

definition exRegistry :: registry where
  "exRegistry =
     [''green'' \<mapsto>
        [''1'' \<mapsto> \<lparr> oi_owner = Some ''Pat'', oi_wins = Some [''2019'', '''', ''2021''] \<rparr>,
         ''2'' \<mapsto> \<lparr> oi_owner = Some ''Sam'', oi_wins = Some [] \<rparr>]]"

definition mkTeam :: "int \<Rightarrow> string \<Rightarrow> int \<Rightarrow> number \<Rightarrow> team" where
  "mkTeam i n w pts =
     \<lparr> team_id = i, team_name = n, team_wins = w, team_losses = 0, team_ties = 0,
       totalPointsScored = pts, regularSeasonPointsAgainst = 0 \<rparr>"

definition exTeams :: "team list" where
  "exTeams = [mkTeam 1 ''Ants'' 8 1150, mkTeam 2 ''Bees'' 8 1200, mkTeam 3 ''Cats'' 9 900,
              mkTeam 4 ''Dogs'' 8 1150]"

definition mkPlayer :: "string \<Rightarrow> string \<Rightarrow> number option \<Rightarrow> (string \<times> number) list option \<Rightarrow> player" where
  "mkPlayer n slot pts breakdown =
     \<lparr> fullName = n, defaultPosition = ''RB'', proTeamAbbreviation = ''GB'',
       rosteredPosition = slot, totalPoints = pts, projectedPointBreakdown = breakdown \<rparr>"

definition exRosterA :: "player list" where
  "exRosterA =
     [mkPlayer ''Kay'' ''K'' (Some 7) None,
      mkPlayer ''Ben'' ''Bench'' (Some 3) None,
      mkPlayer ''Rob'' ''RB'' None (Some [(''a'', 3 / 2), (''b'', 5 / 2)]),
      mkPlayer ''Ira'' ''IR'' None None,
      mkPlayer ''Quin'' ''QB'' (Some 21) (Some []),
      mkPlayer ''Rae'' ''RB'' (Some 12) None]"

definition exRosterB :: "player list" where
  "exRosterB = [mkPlayer ''Tess'' ''TE'' (Some 4) None, mkPlayer ''Wes'' ''WR'' (Some 9) None]"


definition mkBox :: "int \<Rightarrow> int \<Rightarrow> number \<Rightarrow> number \<Rightarrow> player list \<Rightarrow> player list \<Rightarrow> boxscore" where
  "mkBox h a hs as hr ar =
     \<lparr> homeTeamId = h, awayTeamId = a, homeScore = hs, awayScore = as,
       homeRoster = hr, awayRoster = ar \<rparr>"

text \<open>Three boxscores; team 9 of the last one is not among the teams.\<close>

definition exBoxscores :: "boxscore list" where
  "exBoxscores = [mkBox 3 4 90 80 [] [], mkBox 1 2 101 88 exRosterA exRosterB, mkBox 9 5 70 60 [] []]"

text \<open>A client that answers every call, and one whose calls all reject.\<close>

definition exClient :: client where
  "exClient =
     \<lparr> getLeagueInfo = (\<lambda>season. Inr \<lparr> li_name = ''Green'', currentMatchupPeriodId = 5,
                                         currentScoringPeriodId = 5 \<rparr>),
       getTeamsAtWeek = (\<lambda>season week. Inr exTeams),
       getBoxscoreForWeek = (\<lambda>season period week. Inr exBoxscores) \<rparr>"

definition downClient :: client where
  "downClient =
     \<lparr> getLeagueInfo = (\<lambda>season. Inl ''socket hang up''),
       getTeamsAtWeek = (\<lambda>season week. Inl ''socket hang up''),
       getBoxscoreForWeek = (\<lambda>season period week. Inl ''socket hang up'') \<rparr>"

definition exEnv :: env where
  "exEnv =
     \<lparr> teamsData = exRegistry, greenClient = exClient, whiteClient = downClient,
       greenSeasonId = 2025, whiteSeasonId = 2025 \<rparr>"

section \<open>Properties of the sort\<close>

lemma insertBy_insort_key:
  fixes key :: "'a \<Rightarrow> 'k::linorder"
  assumes "\<And>a b. (cmp a b \<le> 0) = (key a \<le> key b)"
  shows "insertBy cmp x ys = insort_key key x ys"
  by (induction ys) (simp_all add: assms)

lemma jsSort_sort_key:
  fixes key :: "'a \<Rightarrow> 'k::linorder"
  assumes "\<And>a b. (cmp a b \<le> 0) = (key a \<le> key b)"
  shows "jsSort cmp xs = sort_key key xs"
proof -
  have "insertBy cmp = insort_key key"
    by (intro ext) (rule insertBy_insort_key [OF assms])
  then show ?thesis
    by (simp add: jsSort_def sort_key_def)
qed

section \<open>Properties of the sort of V8\<close>

subsection \<open>With any comparator the result is a permutation\<close>

lemma mset_binaryInsertionSort:
  "mset (binaryInsertionSort cmp acc rest) = mset acc + mset rest"
proof (induction rest arbitrary: acc)
  case Nil
  then show ?case by simp
next
  case (Cons p rest)
  have "mset (take i acc @ p # drop i acc) = mset acc + {#p#}" for i
    by (metis add_mset_add_single append_take_drop_id mset.simps(2) union_code union_mset_add_mset_right)
  then show ?case
    by (simp add: Cons.IH Let_def)
qed

lemma mset_take_drop: "mset (take n xs) + mset (drop n xs) = mset xs"
  by (metis append_take_drop_id mset_append)

lemma countAndMakeRun_mset:
  "countAndMakeRun cmp xs = (run, rest) \<Longrightarrow> mset run + mset rest = mset xs"
  by (auto simp: countAndMakeRun_def Let_def mset_take_drop split: list.splits if_splits)

lemma mset_v8Sort: "mset (v8Sort cmp xs) = mset xs"
  by (auto simp: v8Sort_def mset_binaryInsertionSort countAndMakeRun_mset split: prod.splits)

subsection \<open>With a comparator that follows a key the result is the stable sort by the key\<close>

lemma searchPos_spec:
  fixes key :: "'a \<Rightarrow> 'k::linorder"
  shows "\<forall>b \<in> set acc. (cmp p b < 0) = (key p < key b) \<Longrightarrow>
    sorted (map key acc) \<Longrightarrow>
    left \<le> right \<Longrightarrow> right \<le> length acc \<Longrightarrow>
    (\<forall>j < left. key (acc ! j) \<le> key p) \<Longrightarrow>
    (\<forall>j. right \<le> j \<and> j < length acc \<longrightarrow> key p < key (acc ! j)) \<Longrightarrow>
    searchPos cmp p acc left right \<le> length acc \<and>
    (\<forall>j < searchPos cmp p acc left right. key (acc ! j) \<le> key p) \<and>
    (\<forall>j. searchPos cmp p acc left right \<le> j \<and> j < length acc \<longrightarrow> key p < key (acc ! j))"
proof (induction cmp p acc left right rule: searchPos.induct)
  case (1 cmp pivot xs left right)
  show ?case
  proof (cases "left < right")
    case False
    then have "searchPos cmp pivot xs left right = left"
      by (subst searchPos.simps) simp
    with False "1.prems" show ?thesis
      by simp
  next
    case True
    define mid where "mid = left + (right - left) div 2"
    from True have mid: "left \<le> mid" "mid < right"
      by (simp_all add: mid_def)
    with "1.prems" have midlen: "mid < length xs" by simp
    then have inset: "xs ! mid \<in> set xs" by simp
    have mono: "i \<le> j \<Longrightarrow> j < length xs \<Longrightarrow> key (xs ! i) \<le> key (xs ! j)" for i j
      using "1.prems"(2) by (simp add: sorted_iff_nth_mono)
    show ?thesis
    proof (cases "cmp pivot (xs ! mid) < 0")
      case lt: True
      then have eq: "searchPos cmp pivot xs left right = searchPos cmp pivot xs left mid"
        using True by (subst searchPos.simps) (simp add: mid_def Let_def)
      from lt have k: "key pivot < key (xs ! mid)"
        using "1.prems"(1) inset by simp
      have up: "\<forall>j. mid \<le> j \<and> j < length xs \<longrightarrow> key pivot < key (xs ! j)"
        using k mono by (meson less_le_trans)
      from mid midlen have b: "left \<le> mid" "mid \<le> length xs" by simp_all
      from "1.IH"(1) [OF True mid_def lt "1.prems"(1,2) b "1.prems"(5) up]
      show ?thesis
        by (simp add: eq)
    next
      case ge: False
      then have eq: "searchPos cmp pivot xs left right = searchPos cmp pivot xs (mid + 1) right"
        using True by (subst searchPos.simps) (simp add: mid_def Let_def)
      from ge have k: "key (xs ! mid) \<le> key pivot"
        using "1.prems"(1) inset by simp
      have lo: "\<forall>j < mid + 1. key (xs ! j) \<le> key pivot"
        using k mono midlen by (metis Suc_eq_plus1 less_Suc_eq_le order_trans)
      from mid have b: "mid + 1 \<le> right" by simp
      from "1.IH"(2) [OF True mid_def ge "1.prems"(1,2) b "1.prems"(4) lo "1.prems"(6)]
      show ?thesis
        by (simp add: eq)
    qed
  qed
qed


lemma searchPos_whole:
  fixes key :: "'a \<Rightarrow> 'k::linorder"
  assumes "\<forall>b \<in> set acc. (cmp p b < 0) = (key p < key b)" and "sorted (map key acc)"
  shows "searchPos cmp p acc 0 (length acc) \<le> length acc \<and>
    (\<forall>j < searchPos cmp p acc 0 (length acc). key (acc ! j) \<le> key p) \<and>
    (\<forall>j. searchPos cmp p acc 0 (length acc) \<le> j \<and> j < length acc \<longrightarrow> key p < key (acc ! j))"
proof -
  have e: "\<forall>j. length acc \<le> j \<and> j < length acc \<longrightarrow> key p < key (acc ! j)"
    by auto
  show ?thesis
    by (rule searchPos_spec [where key = key and cmp = cmp and p = p and acc = acc and left = 0
          and right = "length acc", OF assms _ _ _ e]) simp_all
qed

lemma insert_at_sorted:
  fixes key :: "'a \<Rightarrow> 'k::linorder"
  assumes "sorted (map key acc)" and "i \<le> length acc"
    and "\<forall>j < i. key (acc ! j) \<le> key p"
    and "\<forall>j. i \<le> j \<and> j < length acc \<longrightarrow> key p < key (acc ! j)"
  shows "sorted (map key (take i acc @ p # drop i acc))"
    and "filter (\<lambda>x. key x = k) (take i acc @ p # drop i acc) =
         filter (\<lambda>x. key x = k) acc @ filter (\<lambda>x. key x = k) [p]"
proof -
  have lo: "\<forall>x \<in> set (take i acc). key x \<le> key p"
    using assms(2,3) by (auto simp: in_set_conv_nth)
  have hi: "\<forall>x \<in> set (drop i acc). key p < key x"
    using assms(2,4) by (auto simp: in_set_conv_nth)
  have st: "sorted (map key (take i acc))" and sd: "sorted (map key (drop i acc))"
    using assms(1) by (simp_all add: sorted_wrt_take sorted_wrt_drop take_map [symmetric] drop_map [symmetric])
  from lo hi have cross: "\<forall>x \<in> set (take i acc). \<forall>y \<in> set (drop i acc). key x \<le> key y"
    by (meson less_imp_le order_trans)
  from st sd lo hi cross show "sorted (map key (take i acc @ p # drop i acc))"
    by (auto simp: sorted_append less_imp_le)
  have split: "filter (\<lambda>x. key x = k) acc =
      filter (\<lambda>x. key x = k) (take i acc) @ filter (\<lambda>x. key x = k) (drop i acc)"
    by (metis append_take_drop_id filter_append)
  show "filter (\<lambda>x. key x = k) (take i acc @ p # drop i acc) =
         filter (\<lambda>x. key x = k) acc @ filter (\<lambda>x. key x = k) [p]"
  proof (cases "key p = k")
    case True
    with hi have "filter (\<lambda>x. key x = k) (drop i acc) = []"
      by (auto simp: filter_empty_conv)
    with True show ?thesis by (simp add: split)
  next
    case False
    then show ?thesis by (simp add: split)
  qed
qed

lemma binaryInsertionSort_key:
  fixes key :: "'a \<Rightarrow> 'k::linorder"
  assumes "\<forall>a \<in> set acc \<union> set rest. \<forall>b \<in> set acc \<union> set rest. (cmp a b < 0) = (key a < key b)"
    and "sorted (map key acc)"
  shows "sorted (map key (binaryInsertionSort cmp acc rest)) \<and>
    (\<forall>k. filter (\<lambda>x. key x = k) (binaryInsertionSort cmp acc rest) =
         filter (\<lambda>x. key x = k) acc @ filter (\<lambda>x. key x = k) rest)"
  using assms
proof (induction rest arbitrary: acc)
  case Nil
  then show ?case by simp
next
  case (Cons p rest)
  define i where "i = searchPos cmp p acc 0 (length acc)"
  define acc' where "acc' = take i acc @ p # drop i acc"
  from Cons.prems(1) have c: "\<forall>b \<in> set acc. (cmp p b < 0) = (key p < key b)"
    by simp
  from searchPos_whole [where key = key and cmp = cmp and p = p and acc = acc] c Cons.prems(2)
  have i: "i \<le> length acc" "\<forall>j < i. key (acc ! j) \<le> key p"
    "\<forall>j. i \<le> j \<and> j < length acc \<longrightarrow> key p < key (acc ! j)"
    by (simp_all add: i_def)
  note ins = insert_at_sorted [where key = key and p = p and acc = acc and i = i, OF Cons.prems(2) i]
  have s': "sorted (map key acc')"
    unfolding acc'_def by (rule ins(1))
  have "set acc' = insert p (set acc)"
    unfolding acc'_def by (metis append_take_drop_id list.simps(15) set_append Un_insert_right)
  with Cons.prems(1) have c': "\<forall>a \<in> set acc' \<union> set rest. \<forall>b \<in> set acc' \<union> set rest. (cmp a b < 0) = (key a < key b)"
    by simp
  from Cons.IH [OF c' s']
  have "sorted (map key (binaryInsertionSort cmp acc' rest))"
    and "\<forall>k. filter (\<lambda>x. key x = k) (binaryInsertionSort cmp acc' rest) =
         filter (\<lambda>x. key x = k) acc' @ filter (\<lambda>x. key x = k) rest"
    by simp_all
  moreover have "binaryInsertionSort cmp acc (p # rest) = binaryInsertionSort cmp acc' rest"
    by (simp add: acc'_def i_def Let_def)
  moreover have "filter (\<lambda>x. key x = k) acc' = filter (\<lambda>x. key x = k) acc @ filter (\<lambda>x. key x = k) [p]" for k
    unfolding acc'_def by (rule ins(2))
  ultimately show ?case
    by simp
qed


lemma ascending_run_sorted:
  fixes key :: "'a \<Rightarrow> 'k::linorder"
  assumes "\<forall>a \<in> set (prev # cs). \<forall>b \<in> set (prev # cs). (cmp a b < 0) = (key a < key b)"
  shows "sorted (map key (prev # take (runLength False cmp prev cs) cs))"
  using assms
proof (induction cs arbitrary: prev)
  case Nil
  then show ?case by simp
next
  case (Cons c cs)
  show ?case
  proof (cases "cmp c prev < 0")
    case True
    then show ?thesis by simp
  next
    case False
    with Cons.prems have le: "key prev \<le> key c"
      by (simp add: not_less)
    from Cons.prems have "\<forall>a \<in> set (c # cs). \<forall>b \<in> set (c # cs). (cmp a b < 0) = (key a < key b)"
      by simp
    from Cons.IH [OF this] le False show ?thesis
      by fastforce
  qed
qed

lemma descending_run_sorted:
  fixes key :: "'a \<Rightarrow> 'k::linorder"
  assumes "\<forall>a \<in> set (prev # cs). \<forall>b \<in> set (prev # cs). (cmp a b < 0) = (key a < key b)"
  shows "sorted_wrt (\<lambda>a b. key b < key a) (prev # take (runLength True cmp prev cs) cs)"
  using assms
proof (induction cs arbitrary: prev)
  case Nil
  then show ?case by simp
next
  case (Cons c cs)
  have tr: "transp (\<lambda>a b. key b < key a)"
    by (rule transpI) (rule order.strict_trans)
  show ?case
  proof (cases "0 \<le> cmp c prev")
    case True
    then show ?thesis by simp
  next
    case False
    with Cons.prems have lt: "key c < key prev"
      by (simp add: not_le)
    from Cons.prems have "\<forall>a \<in> set (c # cs). \<forall>b \<in> set (c # cs). (cmp a b < 0) = (key a < key b)"
      by simp
    from Cons.IH [OF this] lt False show ?thesis
      by (simp add: sorted_wrt2 [OF tr] del: sorted_wrt.simps)
  qed
qed

lemma descending_rev_sorted:
  fixes key :: "'a \<Rightarrow> 'k::linorder"
  assumes "sorted_wrt (\<lambda>a b. key b < key a) run"
  shows "sorted (map key (rev run))"
proof -
  from assms have "sorted_wrt (\<lambda>a b. key a < key b) (rev run)"
    by (simp add: sorted_wrt_rev)
  then have "sorted_wrt (\<lambda>a b. key a \<le> key b) (rev run)"
    by (rule sorted_wrt_mono_rel [rotated]) simp
  then show ?thesis
    by (simp add: sorted_map)
qed

lemma descending_rev_filter:
  fixes key :: "'a \<Rightarrow> 'k::linorder"
  assumes "sorted_wrt (\<lambda>a b. key b < key a) run"
  shows "filter (\<lambda>x. key x = k) (rev run) = filter (\<lambda>x. key x = k) run"
  using assms
proof (induction run)
  case Nil
  then show ?case by simp
next
  case (Cons x xs)
  then have below: "\<forall>y \<in> set xs. key y < key x"
    and IH: "filter (\<lambda>x. key x = k) (rev xs) = filter (\<lambda>x. key x = k) xs"
    by simp_all
  show ?case
  proof (cases "key x = k")
    case True
    with below have "filter (\<lambda>x. key x = k) xs = []"
      by (auto simp: filter_empty_conv)
    with True IH show ?thesis by simp
  next
    case False
    with IH show ?thesis by simp
  qed
qed

lemma countAndMakeRun_key:
  fixes key :: "'a \<Rightarrow> 'k::linorder"
  assumes cons: "\<forall>a \<in> set xs. \<forall>b \<in> set xs. (cmp a b < 0) = (key a < key b)"
    and run: "countAndMakeRun cmp xs = (run, rest)"
  shows "sorted (map key run) \<and>
    (\<forall>k. filter (\<lambda>x. key x = k) run @ filter (\<lambda>x. key x = k) rest = filter (\<lambda>x. key x = k) xs)"
proof (cases xs)
  case Nil
  with run show ?thesis by (simp add: countAndMakeRun_def)
next
  case one: (Cons x0 ys)
  show ?thesis
  proof (cases ys)
    case Nil
    with one run show ?thesis by (auto simp: countAndMakeRun_def)
  next
    case (Cons x1 zs)
    with one have xs: "xs = x0 # x1 # zs" by simp
    from cons xs have c1: "\<forall>a \<in> set (x1 # zs). \<forall>b \<in> set (x1 # zs). (cmp a b < 0) = (key a < key b)"
      by simp
    from cons xs have c0: "(cmp x1 x0 < 0) = (key x1 < key x0)"
      by simp
    show ?thesis
    proof (cases "cmp x1 x0 < 0")
      case True
      define n where "n = runLength True cmp x1 zs"
      from True run xs have r: "run = rev (x0 # x1 # take n zs)" "rest = drop n zs"
        by (simp_all add: countAndMakeRun_def n_def Let_def)
      have tr: "transp (\<lambda>a b. key b < key a)"
        by (rule transpI) (rule order.strict_trans)
      from descending_run_sorted [OF c1] True c0
      have d: "sorted_wrt (\<lambda>a b. key b < key a) (x0 # x1 # take n zs)"
        by (simp add: sorted_wrt2 [OF tr] n_def del: sorted_wrt.simps)
      have "filter (\<lambda>x. key x = k) run @ filter (\<lambda>x. key x = k) rest = filter (\<lambda>x. key x = k) xs" for k
      proof -
        have whole: "(x0 # x1 # take n zs) @ drop n zs = xs"
          by (simp add: xs)
        have "filter (\<lambda>x. key x = k) run = filter (\<lambda>x. key x = k) (x0 # x1 # take n zs)"
          unfolding r by (rule descending_rev_filter [OF d])
        then have "filter (\<lambda>x. key x = k) run @ filter (\<lambda>x. key x = k) rest =
            filter (\<lambda>x. key x = k) ((x0 # x1 # take n zs) @ drop n zs)"
          by (simp only: filter_append r(2))
        then show ?thesis by (simp only: whole)
      qed
      moreover have "sorted (map key run)"
        unfolding r by (rule descending_rev_sorted [OF d])
      ultimately show ?thesis by simp
    next
      case False
      define n where "n = runLength False cmp x1 zs"
      from False run xs have r: "run = x0 # x1 # take n zs" "rest = drop n zs"
        by (simp_all add: countAndMakeRun_def n_def Let_def)
      from False c0 have "key x0 \<le> key x1" by (simp add: not_less)
      with ascending_run_sorted [OF c1] have "sorted (map key run)"
        by (fastforce simp: r n_def)
      moreover have "filter (\<lambda>x. key x = k) run @ filter (\<lambda>x. key x = k) rest = filter (\<lambda>x. key x = k) xs" for k
      proof -
        have "run @ rest = xs" by (simp add: r xs)
        then show ?thesis by (metis filter_append)
      qed
      ultimately show ?thesis by simp
    qed
  qed
qed

lemma v8Sort_sort_key:
  fixes key :: "'a \<Rightarrow> 'k::linorder"
  assumes cons: "\<forall>a \<in> set xs. \<forall>b \<in> set xs. (cmp a b < 0) = (key a < key b)"
  shows "v8Sort cmp xs = sort_key key xs"
proof -
  obtain run rest where rr: "countAndMakeRun cmp xs = (run, rest)"
    by (cases "countAndMakeRun cmp xs") simp
  from countAndMakeRun_key [OF cons rr]
  have srun: "sorted (map key run)"
    and frun: "\<And>k. filter (\<lambda>x. key x = k) run @ filter (\<lambda>x. key x = k) rest = filter (\<lambda>x. key x = k) xs"
    by simp_all
  from countAndMakeRun_mset [OF rr] have "set run \<union> set rest = set xs"
    by (metis set_mset_mset set_mset_union)
  with cons have c: "\<forall>a \<in> set run \<union> set rest. \<forall>b \<in> set run \<union> set rest. (cmp a b < 0) = (key a < key b)"
    by simp
  from binaryInsertionSort_key [where key = key, OF c srun] frun
  have s: "sorted (map key (v8Sort cmp xs))"
    and f: "\<And>k. filter (\<lambda>x. key x = k) (v8Sort cmp xs) = filter (\<lambda>x. key x = k) xs"
    by (simp_all add: v8Sort_def rr)
  have "sort_key key xs = v8Sort cmp xs"
  proof (rule properties_for_sort_key)
    show "mset (v8Sort cmp xs) = mset xs" by (rule mset_v8Sort)
    show "sorted (map key (v8Sort cmp xs))" by (rule s)
    fix k
    from f [of "key k"] show "filter (\<lambda>x. key k = key x) (v8Sort cmp xs) = filter (\<lambda>x. key k = key x) xs"
      by (simp add: eq_commute)
  qed
  then show ?thesis by simp
qed

section \<open>Standings Builder\<close>

lemma standingRow_sel [simp]:
  "st_id (standingRow td d t) = team_id t"
  "st_name (standingRow td d t) = team_name t"
  "st_wins (standingRow td d t) = team_wins t"
  "st_losses (standingRow td d t) = team_losses t"
  "st_ties (standingRow td d t) = team_ties t"
  "st_points (standingRow td d t) = totalPointsScored t"
  "st_pointsAgainst (standingRow td d t) = regularSeasonPointsAgainst t"
  "st_owner (standingRow td d t) = ownerOf (ownerInfoOf td d (toString (team_id t)))"
  "st_championships (standingRow td d t) = championshipsOf (ownerInfoOf td d (toString (team_id t)))"
  by (simp_all add: standingRow_def Let_def)

lemma mkTeam_sel [simp]:
  "team_id (mkTeam i n w pts) = i"
  "team_name (mkTeam i n w pts) = n"
  "team_wins (mkTeam i n w pts) = w"
  "totalPointsScored (mkTeam i n w pts) = pts"
  by (simp_all add: mkTeam_def)

lemma standingsCmp_key:
  "(standingsCmp a b \<le> 0) = ((- st_wins a, - st_points a) \<le> (- st_wins b, - st_points b))"
  by (auto simp: standingsCmp_def less_eq_prod_def)

lemma standings_sort_key:
  "standings td d teams =
     sort_key (\<lambda>s. (- st_wins s, - st_points s)) (map (standingRow td d) teams)"
  unfolding standings_def
  by (rule jsSort_sort_key) (rule standingsCmp_key)

text \<open>
  C1. For every team list the standings are sorted by wins descending, ties broken by
  points descending: each entry and its successor satisfy
  \<open>earlier.wins > later.wins\<close>, or \<open>earlier.wins = later.wins\<close> and
  \<open>earlier.points \<ge> later.points\<close>. The sort is stable: the rows with given wins and
  points stand in the output in the order they have in the input.
\<close>

theorem standings_sorted_stable:
  "(\<forall>i. Suc i < length (standings td d teams) \<longrightarrow>
      st_wins (standings td d teams ! i) > st_wins (standings td d teams ! Suc i) \<or>
      (st_wins (standings td d teams ! i) = st_wins (standings td d teams ! Suc i) \<and>
       st_points (standings td d teams ! i) \<ge> st_points (standings td d teams ! Suc i))) \<and>
   (\<forall>w p. filter (\<lambda>s. st_wins s = w \<and> st_points s = p) (standings td d teams) =
          filter (\<lambda>s. st_wins s = w \<and> st_points s = p) (map (standingRow td d) teams))"
proof (intro conjI allI impI)
  let ?key = "\<lambda>s. (- st_wins s, - st_points s)"
  let ?out = "standings td d teams"
  fix i assume i: "Suc i < length ?out"
  have "sorted (map ?key ?out)"
    by (simp only: standings_sort_key sorted_sort_key)
  then have "map ?key ?out ! i \<le> map ?key ?out ! Suc i"
    using i by (simp only: sorted_iff_nth_Suc length_map)
  then have "?key (?out ! i) \<le> ?key (?out ! Suc i)"
    using i by simp
  then show "st_wins (?out ! i) > st_wins (?out ! Suc i) \<or>
      (st_wins (?out ! i) = st_wins (?out ! Suc i) \<and> st_points (?out ! i) \<ge> st_points (?out ! Suc i))"
    by (auto simp: less_eq_prod_def)
next
  fix w p
  let ?key = "\<lambda>s. (- st_wins s, - st_points s)"
  have "filter (\<lambda>s. ?key s = (- w, - p)) (standings td d teams) =
        filter (\<lambda>s. ?key s = (- w, - p)) (map (standingRow td d) teams)"
    by (simp only: standings_sort_key sort_key_stable)
  then show "filter (\<lambda>s. st_wins s = w \<and> st_points s = p) (standings td d teams) =
          filter (\<lambda>s. st_wins s = w \<and> st_points s = p) (map (standingRow td d) teams)"
    by simp
qed

lemma ex_standings:
  "standings exRegistry ''green'' exTeams =
     map (standingRow exRegistry ''green'')
       [mkTeam 3 ''Cats'' 9 900, mkTeam 2 ''Bees'' 8 1200, mkTeam 1 ''Ants'' 8 1150, mkTeam 4 ''Dogs'' 8 1150]"
  by (simp add: standings_def jsSort_def exTeams_def standingsCmp_def)

text \<open>
  On the example the team with nine wins comes first, then the eight-win teams by
  points, and the two teams with eight wins and 1150 points (ids 1 and 4) keep their
  input order.
\<close>

theorem standings_sorted_stable_witness:
  "map st_id (standings exRegistry ''green'' exTeams) = [3, 2, 1, 4] \<and>
   Suc 1 < length (standings exRegistry ''green'' exTeams) \<and>
   st_wins (standings exRegistry ''green'' exTeams ! 1) =
     st_wins (standings exRegistry ''green'' exTeams ! Suc 1) \<and>
   st_points (standings exRegistry ''green'' exTeams ! 1) \<ge>
     st_points (standings exRegistry ''green'' exTeams ! Suc 1) \<and>
   map st_id (filter (\<lambda>s. st_wins s = 8 \<and> st_points s = 1150)
     (standings exRegistry ''green'' exTeams)) = [1, 4]"
proof -
  let ?out = "standings exRegistry ''green'' exTeams"
  have len: "Suc 1 < length ?out"
    by (simp add: ex_standings)
  have w: "\<not> st_wins (?out ! 1) > st_wins (?out ! Suc 1)"
    by (simp add: ex_standings)
  from standings_sorted_stable [of exRegistry "''green''" exTeams]
  have adj: "Suc 1 < length ?out \<longrightarrow>
      st_wins (?out ! 1) > st_wins (?out ! Suc 1) \<or>
      (st_wins (?out ! 1) = st_wins (?out ! Suc 1) \<and> st_points (?out ! 1) \<ge> st_points (?out ! Suc 1))"
    and stab: "filter (\<lambda>s. st_wins s = 8 \<and> st_points s = 1150) ?out =
      filter (\<lambda>s. st_wins s = 8 \<and> st_points s = 1150) (map (standingRow exRegistry ''green'') exTeams)"
    by blast+
  have "map st_id (filter (\<lambda>s. st_wins s = 8 \<and> st_points s = 1150)
      (map (standingRow exRegistry ''green'') exTeams)) = [1, 4]"
    by (simp add: exTeams_def)
  with stab have s: "map st_id (filter (\<lambda>s. st_wins s = 8 \<and> st_points s = 1150) ?out) = [1, 4]"
    by simp
  have ids: "map st_id ?out = [3, 2, 1, 4]"
    by (simp add: ex_standings)
  from adj len w s ids show ?thesis by blast
qed

lemma toString_digit:
  "toString 1 = ''1''" "toString 2 = ''2''" "toString 3 = ''3''" "toString 4 = ''4''"
  "toString 5 = ''5''" "toString 9 = ''9''"
  by (simp_all add: toString_def digitsOf.simps digitChar_def)

lemma exRegistry_lookup:
  "ownerInfoOf exRegistry ''green'' ''1'' = Some \<lparr> oi_owner = Some ''Pat'', oi_wins = Some [''2019'', '''', ''2021''] \<rparr>"
  "ownerInfoOf exRegistry ''green'' ''2'' = Some \<lparr> oi_owner = Some ''Sam'', oi_wins = Some [] \<rparr>"
  "ownerInfoOf exRegistry ''green'' ''3'' = None"
  "ownerInfoOf exRegistry ''green'' ''4'' = None"
  "ownerInfoOf exRegistry ''white'' k = None"
  by (simp_all add: ownerInfoOf_def exRegistry_def)

text \<open>
  C2. The ownership join is total: the standings hold exactly one row for every team of
  the input (the rows are the joined rows of the teams, each as often as its team
  occurs, so every team has its row with its id), and a row whose team id has no entry
  in the registry of its division has the empty string as owner and no championships;
  \<open>standings\<close> has no error result.
\<close>

theorem ownership_join_total:
  "mset (standings td d teams) = mset (map (standingRow td d) teams) \<and>
   length (standings td d teams) = length teams \<and>
   (\<forall>t \<in> set teams. standingRow td d t \<in> set (standings td d teams) \<and>
      st_id (standingRow td d t) = team_id t) \<and>
   (\<forall>row \<in> set (standings td d teams).
      ownerInfoOf td d (toString (st_id row)) = None \<longrightarrow>
      st_owner row = '''' \<and> st_championships row = [])"
  by (auto simp: standings_sort_key ownerOf_def championshipsOf_def orStr_def)

text \<open>Witness of C2: team 3 of the example has no registry entry.\<close>

theorem ownership_join_total_witness:
  "mkTeam 3 ''Cats'' 9 900 \<in> set exTeams \<and>
   standings exRegistry ''green'' exTeams ! 0 = standingRow exRegistry ''green'' (mkTeam 3 ''Cats'' 9 900) \<and>
   standings exRegistry ''green'' exTeams ! 0 \<in> set (standings exRegistry ''green'' exTeams) \<and>
   st_id (standings exRegistry ''green'' exTeams ! 0) = 3 \<and>
   ownerInfoOf exRegistry ''green'' (toString 3) = None \<and>
   st_owner (standings exRegistry ''green'' exTeams ! 0) = '''' \<and>
   st_championships (standings exRegistry ''green'' exTeams ! 0) = [] \<and>
   length (standings exRegistry ''green'' exTeams) = 4"
proof -
  let ?row = "standings exRegistry ''green'' exTeams ! 0"
  have mem: "mkTeam 3 ''Cats'' 9 900 \<in> set exTeams"
    by (simp add: exTeams_def)
  have row: "?row = standingRow exRegistry ''green'' (mkTeam 3 ''Cats'' 9 900)"
    by (simp add: ex_standings)
  have id: "st_id ?row = 3"
    by (simp add: row)
  have none: "ownerInfoOf exRegistry ''green'' (toString (st_id ?row)) = None"
    by (simp add: id toString_digit exRegistry_lookup)
  have len: "length exTeams = 4"
    by (simp add: exTeams_def)
  note t = ownership_join_total [of exRegistry "''green''" exTeams]
  from t mem row have inset: "?row \<in> set (standings exRegistry ''green'' exTeams)"
    by simp
  from t inset none have e: "st_owner ?row = '''' \<and> st_championships ?row = []"
    by blast
  from t len have l: "length (standings exRegistry ''green'' exTeams) = 4"
    by simp
  from none id have n3: "ownerInfoOf exRegistry ''green'' (toString 3) = None"
    by simp
  from mem row inset id n3 e l show ?thesis
    by (intro conjI) simp_all
qed

section \<open>Championship filtering\<close>

lemma count_list_filter_keep:
  "P y \<Longrightarrow> count_list (filter P ws) y = count_list ws y"
  by (induction ws) auto

lemma championshipsOf_Some:
  "oi_wins i = Some ws \<Longrightarrow> championshipsOf (Some i) = filter (\<lambda>year. year \<noteq> '''') ws"
  by (simp add: championshipsOf_def)

lemma set_standings: "set (standings td d teams) = standingRow td d ` set teams"
  by (simp add: standings_sort_key)

lemma rosterResult_Json:
  "rosterResult td d teamId bs ts = Json body \<Longrightarrow>
     rb_championships body = championshipsOf (ownerInfoOf td d teamId) \<and>
     rb_owner body = ownerOf (ownerInfoOf td d teamId)"
  by (auto simp: rosterResult_def Let_def split: option.splits)

text \<open>
  C3. For a registry entry with the championship list \<open>ws\<close>, the list exposed is \<open>ws\<close>
  without its empty strings: it is a subsequence of \<open>ws\<close>, holds no empty string, and
  holds every other entry as often as \<open>ws\<close> does. This is the list emitted in a
  standings row, in a roster response and on both sides of a matchup response,
  whenever the registry lookup of that place finds the entry.
\<close>

theorem championships_drop_empty:
  assumes "oi_wins i = Some ws"
  shows "championshipsOf (Some i) = filter (\<lambda>year. year \<noteq> '''') ws \<and>
    subseq (championshipsOf (Some i)) ws \<and>
    '''' \<notin> set (championshipsOf (Some i)) \<and>
    (\<forall>y. y \<noteq> '''' \<longrightarrow> count_list (championshipsOf (Some i)) y = count_list ws y) \<and>
    (\<forall>row \<in> set (standings td d teams).
       ownerInfoOf td d (toString (st_id row)) = Some i \<longrightarrow>
       st_championships row = championshipsOf (Some i)) \<and>
    (\<forall>body. ownerInfoOf td d teamId = Some i \<longrightarrow>
       rosterResult td d teamId bs ts = Json body \<longrightarrow>
       rb_championships body = championshipsOf (Some i)) \<and>
    (ownerInfoOf td d (toString (homeTeamId box)) = Some i \<longrightarrow>
       mb_homeChampionships (matchupBodyOf td d box ts) = championshipsOf (Some i)) \<and>
    (ownerInfoOf td d (toString (awayTeamId box)) = Some i \<longrightarrow>
       mb_awayChampionships (matchupBodyOf td d box ts) = championshipsOf (Some i))"
proof (intro conjI)
  show eq: "championshipsOf (Some i) = filter (\<lambda>year. year \<noteq> '''') ws"
    using assms by (rule championshipsOf_Some)
  show "subseq (championshipsOf (Some i)) ws"
    by (simp add: eq)
  show "'''' \<notin> set (championshipsOf (Some i))"
    by (simp add: eq)
  show "\<forall>y. y \<noteq> '''' \<longrightarrow> count_list (championshipsOf (Some i)) y = count_list ws y"
    by (simp add: eq count_list_filter_keep)
  show "\<forall>row \<in> set (standings td d teams).
       ownerInfoOf td d (toString (st_id row)) = Some i \<longrightarrow>
       st_championships row = championshipsOf (Some i)"
    by (auto simp: set_standings)
  show "\<forall>body. ownerInfoOf td d teamId = Some i \<longrightarrow>
       rosterResult td d teamId bs ts = Json body \<longrightarrow>
       rb_championships body = championshipsOf (Some i)"
    by (auto dest: rosterResult_Json)
  show "ownerInfoOf td d (toString (homeTeamId box)) = Some i \<longrightarrow>
       mb_homeChampionships (matchupBodyOf td d box ts) = championshipsOf (Some i)"
    by (simp add: matchupBodyOf_def)
  show "ownerInfoOf td d (toString (awayTeamId box)) = Some i \<longrightarrow>
       mb_awayChampionships (matchupBodyOf td d box ts) = championshipsOf (Some i)"
    by (simp add: matchupBodyOf_def)
qed

section \<open>Roster Formatter\<close>



lemma slotPriority_spec:
  "slot \<notin> set objectPrototypeKeys \<Longrightarrow> slotPriority slot = Some (specPriority slot)"
  by (simp add: slotPriority_def getProperty_def positionOrder_def orDefault_def toNumber_def
      specPriority_def)








section \<open>Matchup Detail Formatter\<close>

lemma foldl_plus_sum_list:
  fixes a :: "'n::comm_monoid_add"
  shows "foldl (\<lambda>a b. a + b) a xs = a + sum_list xs"
  by (induction xs arbitrary: a) (simp_all add: add.assoc)

lemma detailEntryOf_sel [simp]:
  "de_name (detailEntryOf p) = fullName p"
  "de_position (detailEntryOf p) = rosteredPosition p"
  "de_points (detailEntryOf p) = orNum (totalPoints p) 0"
  "de_projected (detailEntryOf p) =
     (case projectedPointBreakdown p of
        Some breakdown \<Rightarrow> foldl (\<lambda>a b. a + b) 0 (objectValues breakdown) | None \<Rightarrow> 0)"
  by (simp_all add: detailEntryOf_def)

lemma detailCmp_key:
  assumes "de_position a \<notin> set objectPrototypeKeys"
    and "de_position b \<notin> set objectPrototypeKeys"
  shows "(sortCompare (detailCmp a b) < 0) =
         (specPriority (de_position a) < specPriority (de_position b))"
  using assms by (simp add: detailCmp_def sortCompare_def jsMinus_def slotPriority_spec)

lemma mset_formatRoster:
  "mset (formatRoster roster) =
     mset (map detailEntryOf
        (filter (\<lambda>p. rosteredPosition p \<noteq> ''Bench'' \<and> rosteredPosition p \<noteq> ''IR'') roster))"
  by (simp only: formatRoster_def mset_v8Sort)

lemma set_formatRoster:
  "set (formatRoster roster) =
     detailEntryOf ` {p \<in> set roster. rosteredPosition p \<noteq> ''Bench'' \<and> rosteredPosition p \<noteq> ''IR''}"
  using mset_eq_setD [OF mset_formatRoster [of roster]] by simp

lemma formatRoster_sort_key:
  assumes "plainSlots roster"
  shows "formatRoster roster =
     sort_key (\<lambda>e. specPriority (de_position e))
       (map detailEntryOf
          (filter (\<lambda>p. rosteredPosition p \<noteq> ''Bench'' \<and> rosteredPosition p \<noteq> ''IR'') roster))"
  unfolding formatRoster_def
proof (rule v8Sort_sort_key, intro ballI)
  fix a b
  assume "a \<in> set (map detailEntryOf
      (filter (\<lambda>p. rosteredPosition p \<noteq> ''Bench'' \<and> rosteredPosition p \<noteq> ''IR'') roster))"
    and "b \<in> set (map detailEntryOf
      (filter (\<lambda>p. rosteredPosition p \<noteq> ''Bench'' \<and> rosteredPosition p \<noteq> ''IR'') roster))"
  with assms have "de_position a \<notin> set objectPrototypeKeys"
    and "de_position b \<notin> set objectPrototypeKeys"
    by (auto simp: plainSlots_def list_all_iff)
  then show "(sortCompare (detailCmp a b) < 0) =
         (specPriority (de_position a) < specPriority (de_position b))"
    by (rule detailCmp_key)
qed

text \<open>
  C5. In the response for a located boxscore neither roster holds an entry whose
  position is \<open>Bench\<close> or \<open>IR\<close>; the entries are those of the remaining players; the
  projected value of a player is 0 without a breakdown and the sum of the values of
  the breakdown otherwise; the points are the total points, 0 when absent.
\<close>

theorem matchup_detail_rosters:
  assumes body: "body = matchupBodyOf td d box ts"
  shows "(\<forall>e \<in> set (mb_homeRoster body) \<union> set (mb_awayRoster body).
            de_position e \<noteq> ''Bench'' \<and> de_position e \<noteq> ''IR'') \<and>
    mset (mb_homeRoster body) =
      mset (map detailEntryOf
        (filter (\<lambda>p. rosteredPosition p \<noteq> ''Bench'' \<and> rosteredPosition p \<noteq> ''IR'') (homeRoster box))) \<and>
    mset (mb_awayRoster body) =
      mset (map detailEntryOf
        (filter (\<lambda>p. rosteredPosition p \<noteq> ''Bench'' \<and> rosteredPosition p \<noteq> ''IR'') (awayRoster box))) \<and>
    (\<forall>p. de_name (detailEntryOf p) = fullName p \<and>
         de_position (detailEntryOf p) = rosteredPosition p \<and>
         de_points (detailEntryOf p) = (case totalPoints p of None \<Rightarrow> 0 | Some v \<Rightarrow> v) \<and>
         de_projected (detailEntryOf p) =
           (case projectedPointBreakdown p of
              None \<Rightarrow> 0
            | Some breakdown \<Rightarrow> sum_list (map snd breakdown)))"
proof (intro conjI allI)
  show "\<forall>e \<in> set (mb_homeRoster body) \<union> set (mb_awayRoster body).
            de_position e \<noteq> ''Bench'' \<and> de_position e \<noteq> ''IR''"
    by (auto simp: body matchupBodyOf_def set_formatRoster)
  show "mset (mb_homeRoster body) =
      mset (map detailEntryOf
        (filter (\<lambda>p. rosteredPosition p \<noteq> ''Bench'' \<and> rosteredPosition p \<noteq> ''IR'') (homeRoster box)))"
    by (simp add: body matchupBodyOf_def mset_formatRoster)
  show "mset (mb_awayRoster body) =
      mset (map detailEntryOf
        (filter (\<lambda>p. rosteredPosition p \<noteq> ''Bench'' \<and> rosteredPosition p \<noteq> ''IR'') (awayRoster box)))"
    by (simp add: body matchupBodyOf_def mset_formatRoster)
next
  fix p
  show "de_name (detailEntryOf p) = fullName p" by simp
  show "de_position (detailEntryOf p) = rosteredPosition p" by simp
  show "de_points (detailEntryOf p) = (case totalPoints p of None \<Rightarrow> 0 | Some v \<Rightarrow> v)"
    by (simp add: orNum_def split: option.splits)
  show "de_projected (detailEntryOf p) =
           (case projectedPointBreakdown p of
              None \<Rightarrow> 0
            | Some breakdown \<Rightarrow> sum_list (map snd breakdown))"
    by (simp add: objectValues_def foldl_plus_sum_list split: option.splits)
qed

text \<open>
  C6. The lookup of a matchup is symmetric in the two requested team ids: both orders
  locate the same boxscore or both find none, and so the two requests have the same
  response.
\<close>

theorem matchup_lookup_symmetric:
  "matchup boxscores x y = matchup boxscores y x \<and>
   matchupResult td d x y boxscores teams = matchupResult td d y x boxscores teams \<and>
   matchupHandler e d x y = matchupHandler e d y x"
proof -
  have m: "matchup boxscores x y = matchup boxscores y x" for boxscores
    unfolding matchup_def by (rule arg_cong [where f = "\<lambda>P. find P boxscores"]) auto
  have r: "matchupResult td d x y boxscores teams = matchupResult td d y x boxscores teams"
    for td boxscores teams
    by (simp add: matchupResult_def m [of boxscores])
  show ?thesis
    by (simp add: m r matchupHandler_def)
qed

section \<open>Matchup Summarizer\<close>

lemma find_app:
  "find P (xs @ ys) = (case find P xs of None \<Rightarrow> find P ys | Some x \<Rightarrow> Some x)"
  by (induction xs) simp_all

lemma teamMap_foldl_find:
  "foldl (\<lambda>m t. m(team_id t \<mapsto> \<lparr> tr_name = team_name t, tr_id = team_id t \<rparr>)) m0 teams i =
     (case find (\<lambda>t. team_id t = i) (rev teams) of
        None \<Rightarrow> m0 i
      | Some t \<Rightarrow> Some \<lparr> tr_name = team_name t, tr_id = team_id t \<rparr>)"
  by (induction teams arbitrary: m0) (auto simp: find_app split: option.splits)

lemma teamMap_find:
  "teamMap teams i =
     map_option (\<lambda>t. \<lparr> tr_name = team_name t, tr_id = team_id t \<rparr>)
       (find (\<lambda>t. team_id t = i) (rev teams))"
  by (simp add: teamMap_def teamMap_foldl_find split: option.splits)

lemma teamMap_None: "(teamMap teams i = None) = (i \<notin> team_id ` set teams)"
  by (auto simp: teamMap_find find_None_iff)

text \<open>
  C7. When both fetches succeed, \<open>getMatchups\<close> returns one summary for each boxscore,
  in the order of the boxscores, with the ids and scores of the boxscore; a home or
  away id that no team of the team sequence has gives the name \<open>Unknown\<close>.
\<close>

theorem getMatchups_total:
  assumes "getBoxscoreForWeek c season week week = Inr scoreboard"
    and "getTeamsAtWeek c season week = Inr teams"
  shows "\<exists>out. snd (getMatchups c season week) = Inr out \<and>
    length out = length scoreboard \<and>
    (\<forall>i < length scoreboard.
       ms_homeTeamId (out ! i) = homeTeamId (scoreboard ! i) \<and>
       ms_homeScore (out ! i) = homeScore (scoreboard ! i) \<and>
       ms_awayTeamId (out ! i) = awayTeamId (scoreboard ! i) \<and>
       ms_awayScore (out ! i) = awayScore (scoreboard ! i) \<and>
       (homeTeamId (scoreboard ! i) \<notin> team_id ` set teams \<longrightarrow> ms_homeTeam (out ! i) = ''Unknown'') \<and>
       (awayTeamId (scoreboard ! i) \<notin> team_id ` set teams \<longrightarrow> ms_awayTeam (out ! i) = ''Unknown''))"
proof (intro exI conjI)
  show "snd (getMatchups c season week) = Inr (map (summarize (teamMap teams)) scoreboard)"
    using assms by (simp add: getMatchups_def)
  show "length (map (summarize (teamMap teams)) scoreboard) = length scoreboard"
    by simp
  show "\<forall>i < length scoreboard.
       ms_homeTeamId (map (summarize (teamMap teams)) scoreboard ! i) = homeTeamId (scoreboard ! i) \<and>
       ms_homeScore (map (summarize (teamMap teams)) scoreboard ! i) = homeScore (scoreboard ! i) \<and>
       ms_awayTeamId (map (summarize (teamMap teams)) scoreboard ! i) = awayTeamId (scoreboard ! i) \<and>
       ms_awayScore (map (summarize (teamMap teams)) scoreboard ! i) = awayScore (scoreboard ! i) \<and>
       (homeTeamId (scoreboard ! i) \<notin> team_id ` set teams \<longrightarrow>
          ms_homeTeam (map (summarize (teamMap teams)) scoreboard ! i) = ''Unknown'') \<and>
       (awayTeamId (scoreboard ! i) \<notin> team_id ` set teams \<longrightarrow>
          ms_awayTeam (map (summarize (teamMap teams)) scoreboard ! i) = ''Unknown'')"
    by (simp add: summarize_def orStr_def teamMap_None [symmetric])
qed

section \<open>Request handlers\<close>

lemma validDivision_iff: "validDivision d = (d = ''green'' \<or> d = ''white'')"
  by (auto simp: validDivision_def)

lemma rosterHandler_valid:
  "validDivision d \<Longrightarrow>
   rosterHandler e d teamId =
     (case fetchCurrentWeek (clientFor e d) (seasonFor e d) of
        (calls, Inl msg) \<Rightarrow> (calls, Error 500 msg)
      | (calls, Inr (boxscores, teams)) \<Rightarrow> (calls, rosterResult (teamsData e) d teamId boxscores teams))"
  by (simp add: rosterHandler_def)

lemma matchupHandler_valid:
  "validDivision d \<Longrightarrow>
   matchupHandler e d homeId awayId =
     (case fetchCurrentWeek (clientFor e d) (seasonFor e d) of
        (calls, Inl msg) \<Rightarrow> (calls, Error 500 msg)
      | (calls, Inr (boxscores, teams)) \<Rightarrow>
          (calls, matchupResult (teamsData e) d homeId awayId boxscores teams))"
  by (simp add: matchupHandler_def)

lemma leagueHandler_status:
  "validDivision d \<Longrightarrow> status (snd (leagueHandler e d)) \<in> {200, 500}"
  by (simp add: leagueHandler_def getMatchups_def split: prod.splits sum.splits)

lemma rosterHandler_status:
  "validDivision d \<Longrightarrow> status (snd (rosterHandler e d teamId)) \<in> {200, 404, 500}"
  by (simp add: rosterHandler_def rosterResult_def Let_def split: prod.splits sum.splits option.splits)

lemma matchupHandler_status:
  "validDivision d \<Longrightarrow> status (snd (matchupHandler e d homeId awayId)) \<in> {200, 404, 500}"
  by (simp add: matchupHandler_def matchupResult_def split: prod.splits sum.splits option.splits)

lemma rosterHandler_calls:
  "fst (rosterHandler e d teamId) = fst (rosterHandler e d teamId')"
  by (simp add: rosterHandler_def split: prod.splits sum.splits)

lemma matchupHandler_calls:
  "fst (matchupHandler e d homeId awayId) = fst (matchupHandler e d homeId' awayId')"
  by (simp add: matchupHandler_def split: prod.splits sum.splits)

text \<open>
  C8. For a valid division and a successful fetch, a roster request whose team id is
  the home or away id of no fetched boxscore is answered with status 404
  (\<open>Team not found\<close>), and a matchup request whose pair of ids matches no fetched
  boxscore in either orientation with status 404 (\<open>Matchup not found\<close>); a failed
  fetch is answered with status 500 and the message of the failure.
\<close>

theorem not_found_is_404:
  assumes "validDivision d"
  shows "(fetchCurrentWeek (clientFor e d) (seasonFor e d) = (calls, Inr (boxscores, teams)) \<longrightarrow>
      (\<forall>box \<in> set boxscores.
         parseInt teamId \<noteq> Some (homeTeamId box) \<and> parseInt teamId \<noteq> Some (awayTeamId box)) \<longrightarrow>
      rosterHandler e d teamId = (calls, Error 404 ''Team not found'')) \<and>
    (fetchCurrentWeek (clientFor e d) (seasonFor e d) = (calls, Inr (boxscores, teams)) \<longrightarrow>
      (\<forall>box \<in> set boxscores.
         \<not> (parseInt homeId = Some (homeTeamId box) \<and> parseInt awayId = Some (awayTeamId box)) \<and>
         \<not> (parseInt awayId = Some (homeTeamId box) \<and> parseInt homeId = Some (awayTeamId box))) \<longrightarrow>
      matchupHandler e d homeId awayId = (calls, Error 404 ''Matchup not found'')) \<and>
    (fetchCurrentWeek (clientFor e d) (seasonFor e d) = (calls, Inl msg) \<longrightarrow>
      rosterHandler e d teamId = (calls, Error 500 msg) \<and>
      matchupHandler e d homeId awayId = (calls, Error 500 msg))"
proof (intro conjI impI)
  assume f: "fetchCurrentWeek (clientFor e d) (seasonFor e d) = (calls, Inr (boxscores, teams))"
    and n: "\<forall>box \<in> set boxscores.
         parseInt teamId \<noteq> Some (homeTeamId box) \<and> parseInt teamId \<noteq> Some (awayTeamId box)"
  from n have "teamBoxscore boxscores teamId = None"
    by (auto simp: teamBoxscore_def find_None_iff)
  then show "rosterHandler e d teamId = (calls, Error 404 ''Team not found'')"
    using assms f by (simp add: rosterHandler_valid rosterResult_def)
next
  assume f: "fetchCurrentWeek (clientFor e d) (seasonFor e d) = (calls, Inr (boxscores, teams))"
    and n: "\<forall>box \<in> set boxscores.
         \<not> (parseInt homeId = Some (homeTeamId box) \<and> parseInt awayId = Some (awayTeamId box)) \<and>
         \<not> (parseInt awayId = Some (homeTeamId box) \<and> parseInt homeId = Some (awayTeamId box))"
  from n have "matchup boxscores homeId awayId = None"
    by (auto simp: matchup_def find_None_iff)
  then show "matchupHandler e d homeId awayId = (calls, Error 404 ''Matchup not found'')"
    using assms f by (simp add: matchupHandler_valid matchupResult_def)
next
  assume f: "fetchCurrentWeek (clientFor e d) (seasonFor e d) = (calls, Inl msg)"
  show "rosterHandler e d teamId = (calls, Error 500 msg)"
    using assms f by (simp add: rosterHandler_valid)
  show "matchupHandler e d homeId awayId = (calls, Error 500 msg)"
    using assms f by (simp add: matchupHandler_valid)
qed

text \<open>
  C9, as amended. A division other than \<open>green\<close> and \<open>white\<close> is answered with status
  400 before any call to the provider, and status 400 is given for no other reason
  (a failed fetch gives 500). A team id is not validated: the calls a handler issues
  do not depend on the team ids of the request, and a roster request whose team id has
  no numeric prefix is answered, after a successful fetch, with the not-found status
  404.
\<close>

theorem invalid_division_rejected_first:
  "(\<not> validDivision d \<longrightarrow>
      leagueHandler e d = ([], Error 400 ''Invalid division'') \<and>
      rosterHandler e d teamId = ([], Error 400 ''Invalid division'') \<and>
      matchupHandler e d homeId awayId = ([], Error 400 ''Invalid division'')) \<and>
   (validDivision d \<longrightarrow>
      status (snd (leagueHandler e d)) \<noteq> 400 \<and>
      status (snd (rosterHandler e d teamId)) \<noteq> 400 \<and>
      status (snd (matchupHandler e d homeId awayId)) \<noteq> 400) \<and>
   validDivision d = (d = ''green'' \<or> d = ''white'') \<and>
   fst (rosterHandler e d teamId) = fst (rosterHandler e d teamId') \<and>
   fst (matchupHandler e d homeId awayId) = fst (matchupHandler e d homeId' awayId') \<and>
   (validDivision d \<longrightarrow> parseInt teamId = None \<longrightarrow>
      fetchCurrentWeek (clientFor e d) (seasonFor e d) = (calls, Inr (boxscores, teams)) \<longrightarrow>
      rosterHandler e d teamId = (calls, Error 404 ''Team not found''))"
proof (intro conjI impI)
  assume "\<not> validDivision d"
  then show "leagueHandler e d = ([], Error 400 ''Invalid division'')"
    and "rosterHandler e d teamId = ([], Error 400 ''Invalid division'')"
    and "matchupHandler e d homeId awayId = ([], Error 400 ''Invalid division'')"
    by (simp_all add: leagueHandler_def rosterHandler_def matchupHandler_def)
next
  assume v: "validDivision d"
  from leagueHandler_status [OF v, of e] show "status (snd (leagueHandler e d)) \<noteq> 400"
    by auto
  from rosterHandler_status [OF v, of e teamId] show "status (snd (rosterHandler e d teamId)) \<noteq> 400"
    by auto
  from matchupHandler_status [OF v, of e homeId awayId]
  show "status (snd (matchupHandler e d homeId awayId)) \<noteq> 400"
    by auto
next
  show "validDivision d = (d = ''green'' \<or> d = ''white'')"
    by (rule validDivision_iff)
  show "fst (rosterHandler e d teamId) = fst (rosterHandler e d teamId')"
    by (rule rosterHandler_calls)
  show "fst (matchupHandler e d homeId awayId) = fst (matchupHandler e d homeId' awayId')"
    by (rule matchupHandler_calls)
next
  assume v: "validDivision d" and p: "parseInt teamId = None"
    and f: "fetchCurrentWeek (clientFor e d) (seasonFor e d) = (calls, Inr (boxscores, teams))"
  from p have "teamBoxscore boxscores teamId = None"
    by (simp add: teamBoxscore_def find_None_iff)
  with v f show "rosterHandler e d teamId = (calls, Error 404 ''Team not found'')"
    by (simp add: rosterHandler_valid rosterResult_def)
qed

text \<open>
  C10. When the located boxscore stores the requested pair in the reverse order (its
  home team is the requested away id \<open>y\<close>, its away team the requested home id \<open>x\<close>),
  the home fields of the response describe the stored home team \<open>y\<close> and the away
  fields the stored away team \<open>x\<close>: the order of the request does not swap the sides.
\<close>

theorem matchup_sides_follow_boxscore:
  assumes "validDivision d"
    and "fetchCurrentWeek (clientFor e d) (seasonFor e d) = (calls, Inr (boxscores, teams))"
    and "matchup boxscores homeId awayId = Some box"
    and "parseInt homeId = Some x" and "parseInt awayId = Some y"
    and "homeTeamId box = y" and "awayTeamId box = x"
  shows "\<exists>body. matchupHandler e d homeId awayId = (calls, Json body) \<and>
    mb_homeTeam body = teamNameOf teams y \<and>
    mb_homeOwner body = ownerOf (ownerInfoOf (teamsData e) d (toString y)) \<and>
    mb_homeScore body = homeScore box \<and>
    mb_homeRoster body = formatRoster (homeRoster box) \<and>
    mb_homeChampionships body = championshipsOf (ownerInfoOf (teamsData e) d (toString y)) \<and>
    mb_awayTeam body = teamNameOf teams x \<and>
    mb_awayOwner body = ownerOf (ownerInfoOf (teamsData e) d (toString x)) \<and>
    mb_awayScore body = awayScore box \<and>
    mb_awayRoster body = formatRoster (awayRoster box) \<and>
    mb_awayChampionships body = championshipsOf (ownerInfoOf (teamsData e) d (toString x))"
proof -
  have "matchupHandler e d homeId awayId = (calls, Json (matchupBodyOf (teamsData e) d box teams))"
    using assms(1-3) by (simp add: matchupHandler_valid matchupResult_def)
  then show ?thesis
    using assms(6,7) by (simp add: matchupBodyOf_def)
qed

section \<open>The properties on the example inputs\<close>

lemma mkPlayer_sel [simp]:
  "fullName (mkPlayer n slot pts bd) = n"
  "defaultPosition (mkPlayer n slot pts bd) = ''RB''"
  "proTeamAbbreviation (mkPlayer n slot pts bd) = ''GB''"
  "rosteredPosition (mkPlayer n slot pts bd) = slot"
  "totalPoints (mkPlayer n slot pts bd) = pts"
  "projectedPointBreakdown (mkPlayer n slot pts bd) = bd"
  by (simp_all add: mkPlayer_def)

lemma mkBox_sel [simp]:
  "homeTeamId (mkBox h a hs as hr ar) = h"
  "awayTeamId (mkBox h a hs as hr ar) = a"
  "homeScore (mkBox h a hs as hr ar) = hs"
  "awayScore (mkBox h a hs as hr ar) = as"
  "homeRoster (mkBox h a hs as hr ar) = hr"
  "awayRoster (mkBox h a hs as hr ar) = ar"
  by (simp_all add: mkBox_def)

lemma rosterEntryOf_sel [simp]:
  "re_name (rosterEntryOf p) = fullName p"
  "re_position (rosterEntryOf p) = defaultPosition p"
  "re_proTeam (rosterEntryOf p) = proTeamAbbreviation p"
  "re_isStarter (rosterEntryOf p) = (rosteredPosition p \<noteq> ''Bench'' \<and> rosteredPosition p \<noteq> ''IR'')"
  "re_slotPosition (rosterEntryOf p) = rosteredPosition p"
  by (simp_all add: rosterEntryOf_def)

lemma parseInt_ex:
  "parseInt ''1'' = Some 1" "parseInt ''2'' = Some 2" "parseInt ''3'' = Some 3"
  "parseInt ''7'' = Some 7" "parseInt ''abc'' = None" "parseInt ''2x'' = Some 2"
  by (simp_all add: parseInt_def isWhiteSpace_def stripPrefix_def readDigits_def digitValue_def)

lemma exRosterA_plain: "plainSlots exRosterA"
  by (simp add: plainSlots_def exRosterA_def objectPrototypeKeys_def)


lemma ex_formatRoster:
  "formatRoster exRosterA =
     map detailEntryOf
       [mkPlayer ''Quin'' ''QB'' (Some 21) (Some []),
        mkPlayer ''Rob'' ''RB'' None (Some [(''a'', 3 / 2), (''b'', 5 / 2)]),
        mkPlayer ''Rae'' ''RB'' (Some 12) None,
        mkPlayer ''Kay'' ''K'' (Some 7) None]"
  unfolding formatRoster_sort_key [OF exRosterA_plain]
  by (simp add: exRosterA_def specPriority_def)

lemma ex_teamBoxscore: "teamBoxscore exBoxscores ''1'' = Some (mkBox 1 2 101 88 exRosterA exRosterB)"
  by (simp add: teamBoxscore_def exBoxscores_def parseInt_ex)

lemma ex_rosterResult:
  "rosterResult exRegistry ''green'' ''1'' exBoxscores exTeams =
     Json \<lparr> rb_teamId = Some 1, rb_teamName = ''Ants'', rb_owner = ''Pat'',
            rb_championships = [''2019'', ''2021''], rb_roster = formattedRoster exRosterA \<rparr>"
  by (simp add: rosterResult_def ex_teamBoxscore parseInt_ex exTeams_def orStr_def
      exRegistry_lookup ownerOf_def championshipsOf_def)

text \<open>Witness of C3: the entry of green team 1, with one placeholder year.\<close>

theorem championships_drop_empty_witness:
  "oi_wins \<lparr> oi_owner = Some ''Pat'', oi_wins = Some [''2019'', '''', ''2021''] \<rparr> =
     Some [''2019'', '''', ''2021''] \<and>
   championshipsOf (Some \<lparr> oi_owner = Some ''Pat'', oi_wins = Some [''2019'', '''', ''2021''] \<rparr>) =
     [''2019'', ''2021''] \<and>
   ownerInfoOf exRegistry ''green'' ''1'' =
     Some \<lparr> oi_owner = Some ''Pat'', oi_wins = Some [''2019'', '''', ''2021''] \<rparr> \<and>
   rosterResult exRegistry ''green'' ''1'' exBoxscores exTeams =
     Json \<lparr> rb_teamId = Some 1, rb_teamName = ''Ants'', rb_owner = ''Pat'',
            rb_championships = [''2019'', ''2021''], rb_roster = formattedRoster exRosterA \<rparr> \<and>
   st_id (standings exRegistry ''green'' exTeams ! 2) = 1 \<and>
   st_championships (standings exRegistry ''green'' exTeams ! 2) = [''2019'', ''2021''] \<and>
   mb_homeChampionships (matchupBodyOf exRegistry ''green'' (mkBox 1 2 101 88 exRosterA exRosterB) exTeams) =
     [''2019'', ''2021'']"
proof -
  let ?i = "\<lparr> oi_owner = Some ''Pat'', oi_wins = Some [''2019'', '''', ''2021''] \<rparr>"
  let ?box = "mkBox 1 2 101 88 exRosterA exRosterB"
  have w: "oi_wins ?i = Some [''2019'', '''', ''2021'']" by simp
  have row: "standings exRegistry ''green'' exTeams ! 2 \<in> set (standings exRegistry ''green'' exTeams)"
    by (simp add: ex_standings)
  have id: "st_id (standings exRegistry ''green'' exTeams ! 2) = 1"
    by (simp add: ex_standings)
  have l1: "ownerInfoOf exRegistry ''green'' (toString (st_id (standings exRegistry ''green'' exTeams ! 2))) = Some ?i"
    by (simp add: id toString_digit exRegistry_lookup)
  have l2: "ownerInfoOf exRegistry ''green'' (toString (homeTeamId ?box)) = Some ?i"
    by (simp add: toString_digit exRegistry_lookup)
  note t = championships_drop_empty [OF w, of exRegistry "''green''" exTeams "''1''" exBoxscores exTeams ?box]
  from t have eq: "championshipsOf (Some ?i) = filter (\<lambda>year. year \<noteq> '''') [''2019'', '''', ''2021'']"
    by blast
  from t row l1 have s: "st_championships (standings exRegistry ''green'' exTeams ! 2) = championshipsOf (Some ?i)"
    by blast
  from t l2 have m: "mb_homeChampionships (matchupBodyOf exRegistry ''green'' ?box exTeams) = championshipsOf (Some ?i)"
    by blast
  from eq s m id show ?thesis
    by (simp add: ex_rosterResult exRegistry_lookup)
qed



lemma ex_fetch:
  "fetchCurrentWeek (clientFor exEnv ''green'') (seasonFor exEnv ''green'') =
     ([GetLeagueInfo, GetBoxscoreForWeek, GetTeamsAtWeek], Inr (exBoxscores, exTeams))"
  "fetchCurrentWeek (clientFor exEnv ''white'') (seasonFor exEnv ''white'') =
     ([GetLeagueInfo], Inl ''socket hang up'')"
  by (simp_all add: fetchCurrentWeek_def clientFor_def seasonFor_def exEnv_def exClient_def downClient_def)

lemma ex_matchup:
  "matchup exBoxscores ''2'' ''1'' = Some (mkBox 1 2 101 88 exRosterA exRosterB)"
  "matchup exBoxscores ''1'' ''3'' = None"
  "matchup exBoxscores ''abc'' ''1'' = None"
  by (simp_all add: matchup_def exBoxscores_def parseInt_ex)

lemma ex_teamBoxscore_none: "teamBoxscore exBoxscores ''7'' = None" "teamBoxscore exBoxscores ''abc'' = None"
  by (simp_all add: teamBoxscore_def exBoxscores_def parseInt_ex)

lemma ex_teamMap:
  "map_option tr_name (teamMap exTeams 1) = Some ''Ants''"
  "map_option tr_name (teamMap exTeams 2) = Some ''Bees''"
  "map_option tr_name (teamMap exTeams 3) = Some ''Cats''"
  "map_option tr_name (teamMap exTeams 4) = Some ''Dogs''"
  "map_option tr_name (teamMap exTeams 5) = None"
  "map_option tr_name (teamMap exTeams 9) = None"
  by (simp_all add: teamMap_find exTeams_def)

text \<open>
  Witness of C5: the home roster of the example; Rob has the breakdown a: 1.5, b: 2.5
  and no total points, Kay has no breakdown.
\<close>

theorem matchup_detail_rosters_witness:
  "map de_name (mb_homeRoster (matchupBodyOf exRegistry ''green'' (mkBox 1 2 101 88 exRosterA exRosterB) exTeams)) =
     [''Quin'', ''Rob'', ''Rae'', ''Kay''] \<and>
   map de_position (mb_homeRoster (matchupBodyOf exRegistry ''green'' (mkBox 1 2 101 88 exRosterA exRosterB) exTeams)) =
     [''QB'', ''RB'', ''RB'', ''K''] \<and>
   map de_points (mb_homeRoster (matchupBodyOf exRegistry ''green'' (mkBox 1 2 101 88 exRosterA exRosterB) exTeams)) =
     [21, 0, 12, 7] \<and>
   map de_projected (mb_homeRoster (matchupBodyOf exRegistry ''green'' (mkBox 1 2 101 88 exRosterA exRosterB) exTeams)) =
     [0, 4, 0, 0] \<and>
   de_projected (detailEntryOf (mkPlayer ''Rob'' ''RB'' None (Some [(''a'', 3 / 2), (''b'', 5 / 2)]))) = 4 \<and>
   de_projected (detailEntryOf (mkPlayer ''Kay'' ''K'' (Some 7) None)) = 0 \<and>
   de_points (detailEntryOf (mkPlayer ''Rob'' ''RB'' None (Some [(''a'', 3 / 2), (''b'', 5 / 2)]))) = 0"
proof -
  let ?box = "mkBox 1 2 101 88 exRosterA exRosterB"
  let ?rob = "mkPlayer ''Rob'' ''RB'' None (Some [(''a'', 3 / 2), (''b'', 5 / 2)])"
  let ?kay = "mkPlayer ''Kay'' ''K'' (Some 7) None"
  note t = matchup_detail_rosters [OF refl, of exRegistry "''green''" ?box exTeams]
  from t have f: "\<forall>p. de_name (detailEntryOf p) = fullName p \<and>
         de_position (detailEntryOf p) = rosteredPosition p \<and>
         de_points (detailEntryOf p) = (case totalPoints p of None \<Rightarrow> 0 | Some v \<Rightarrow> v) \<and>
         de_projected (detailEntryOf p) =
           (case projectedPointBreakdown p of
              None \<Rightarrow> 0
            | Some breakdown \<Rightarrow> sum_list (map snd breakdown))"
    by blast
  from f [rule_format, of ?rob] have rob: "de_projected (detailEntryOf ?rob) = 4"
    "de_points (detailEntryOf ?rob) = 0"
    by simp_all
  from f [rule_format, of ?kay] have kay: "de_projected (detailEntryOf ?kay) = 0"
    by simp
  have home: "mb_homeRoster (matchupBodyOf exRegistry ''green'' ?box exTeams) = formatRoster exRosterA"
    by (simp add: matchupBodyOf_def)
  have a: "map de_name (formatRoster exRosterA) = [''Quin'', ''Rob'', ''Rae'', ''Kay'']"
    and b: "map de_position (formatRoster exRosterA) = [''QB'', ''RB'', ''RB'', ''K'']"
    and c: "map de_points (formatRoster exRosterA) = [21, 0, 12, 7]"
    and d: "map de_projected (formatRoster exRosterA) = [0, 4, 0, 0]"
    by (simp_all add: ex_formatRoster orNum_def objectValues_def)
  from a b c d rob kay show ?thesis
    unfolding home by (intro conjI)
qed

text \<open>
  C6 on the example: teams 1 and 2 meet in one boxscore, teams 1 and 3 in none.
\<close>

theorem matchup_lookup_symmetric_witness:
  "matchup exBoxscores ''1'' ''2'' = Some (mkBox 1 2 101 88 exRosterA exRosterB) \<and>
   matchup exBoxscores ''2'' ''1'' = Some (mkBox 1 2 101 88 exRosterA exRosterB) \<and>
   matchup exBoxscores ''3'' ''1'' = None \<and> matchup exBoxscores ''1'' ''3'' = None"
proof -
  from matchup_lookup_symmetric [of exBoxscores "''1''" "''2''"]
  have a: "matchup exBoxscores ''1'' ''2'' = matchup exBoxscores ''2'' ''1''"
    by blast
  from matchup_lookup_symmetric [of exBoxscores "''3''" "''1''"]
  have b: "matchup exBoxscores ''3'' ''1'' = matchup exBoxscores ''1'' ''3''"
    by blast
  from a b ex_matchup(1,2) show ?thesis
    by simp
qed

text \<open>
  Witness of C7: the third boxscore of the example names the teams 9 and 5, which are
  not among the teams.
\<close>

theorem getMatchups_total_witness:
  "getBoxscoreForWeek exClient 2025 5 5 = Inr exBoxscores \<and>
   getTeamsAtWeek exClient 2025 5 = Inr exTeams \<and>
   9 \<notin> team_id ` set exTeams \<and> 5 \<notin> team_id ` set exTeams \<and>
   (\<exists>out. snd (getMatchups exClient 2025 5) = Inr out \<and> length out = 3 \<and>
      map ms_homeTeam out = [''Cats'', ''Ants'', ''Unknown''] \<and>
      map ms_awayTeam out = [''Dogs'', ''Bees'', ''Unknown''] \<and>
      map ms_homeTeamId out = [3, 1, 9] \<and> map ms_awayTeamId out = [4, 2, 5])"
proof -
  have b: "getBoxscoreForWeek exClient 2025 5 5 = Inr exBoxscores"
    and t: "getTeamsAtWeek exClient 2025 5 = Inr exTeams"
    by (simp_all add: exClient_def)
  have n: "9 \<notin> team_id ` set exTeams" "5 \<notin> team_id ` set exTeams"
    by (simp_all add: exTeams_def)
  from getMatchups_total [OF b t] obtain out where
    o: "snd (getMatchups exClient 2025 5) = Inr out" and l: "length out = length exBoxscores"
    by blast
  have "snd (getMatchups exClient 2025 5) = Inr (map (summarize (teamMap exTeams)) exBoxscores)"
    by (simp add: getMatchups_def b t)
  with o have out: "out = map (summarize (teamMap exTeams)) exBoxscores"
    by simp
  have "length out = 3 \<and>
      map ms_homeTeam out = [''Cats'', ''Ants'', ''Unknown''] \<and>
      map ms_awayTeam out = [''Dogs'', ''Bees'', ''Unknown''] \<and>
      map ms_homeTeamId out = [3, 1, 9] \<and> map ms_awayTeamId out = [4, 2, 5]"
    unfolding out by (simp add: exBoxscores_def summarize_def ex_teamMap orStr_def)
  with o b t n show ?thesis
    by (intro conjI exI [of _ out]) simp_all
qed

text \<open>
  Witness of C8: team 7 plays in no boxscore, teams 1 and 3 do not meet, and the white
  client is down.
\<close>

theorem not_found_is_404_witness:
  "validDivision ''green'' \<and> validDivision ''white'' \<and>
   teamBoxscore exBoxscores ''7'' = None \<and>
   rosterHandler exEnv ''green'' ''7'' =
     ([GetLeagueInfo, GetBoxscoreForWeek, GetTeamsAtWeek], Error 404 ''Team not found'') \<and>
   matchup exBoxscores ''1'' ''3'' = None \<and>
   matchupHandler exEnv ''green'' ''1'' ''3'' =
     ([GetLeagueInfo, GetBoxscoreForWeek, GetTeamsAtWeek], Error 404 ''Matchup not found'') \<and>
   rosterHandler exEnv ''white'' ''7'' = ([GetLeagueInfo], Error 500 ''socket hang up'') \<and>
   matchupHandler exEnv ''white'' ''1'' ''3'' = ([GetLeagueInfo], Error 500 ''socket hang up'')"
proof -
  have g: "validDivision ''green''" and w: "validDivision ''white''"
    by (simp_all add: validDivision_def)
  have r: "\<forall>box \<in> set exBoxscores.
         parseInt ''7'' \<noteq> Some (homeTeamId box) \<and> parseInt ''7'' \<noteq> Some (awayTeamId box)"
    by (simp add: exBoxscores_def parseInt_ex)
  have m: "\<forall>box \<in> set exBoxscores.
         \<not> (parseInt ''1'' = Some (homeTeamId box) \<and> parseInt ''3'' = Some (awayTeamId box)) \<and>
         \<not> (parseInt ''3'' = Some (homeTeamId box) \<and> parseInt ''1'' = Some (awayTeamId box))"
    by (simp add: exBoxscores_def parseInt_ex)
  note tg = not_found_is_404 [OF g, of exEnv "[GetLeagueInfo, GetBoxscoreForWeek, GetTeamsAtWeek]"
      exBoxscores exTeams "''7''" "''1''" "''3''"]
  note tw = not_found_is_404 [OF w, of exEnv "[GetLeagueInfo]" _ _ "''7''" "''1''" "''3''" "''socket hang up''"]
  from tg ex_fetch(1) r have a: "rosterHandler exEnv ''green'' ''7'' =
     ([GetLeagueInfo, GetBoxscoreForWeek, GetTeamsAtWeek], Error 404 ''Team not found'')"
    by blast
  from tg ex_fetch(1) m have b: "matchupHandler exEnv ''green'' ''1'' ''3'' =
     ([GetLeagueInfo, GetBoxscoreForWeek, GetTeamsAtWeek], Error 404 ''Matchup not found'')"
    by blast
  from tw ex_fetch(2) have c: "rosterHandler exEnv ''white'' ''7'' = ([GetLeagueInfo], Error 500 ''socket hang up'') \<and>
   matchupHandler exEnv ''white'' ''1'' ''3'' = ([GetLeagueInfo], Error 500 ''socket hang up'')"
    by blast
  from g w a b c ex_teamBoxscore_none(1) ex_matchup(2) show ?thesis
    by (intro conjI) blast+
qed

text \<open>
  Counterexample to C9 as stated: the team id \<open>abc\<close> is not numeric, yet the roster and
  matchup handlers call the provider three times and then answer 404, the status of a
  team that is not found; when the provider is down the same request is answered 500.
  No validation error is reported for the team id, before or after the fetch.
\<close>

theorem malformed_team_id_counterexample:
  "validDivision ''green'' \<and> parseInt ''abc'' = None \<and>
   rosterHandler exEnv ''green'' ''abc'' =
     ([GetLeagueInfo, GetBoxscoreForWeek, GetTeamsAtWeek], Error 404 ''Team not found'') \<and>
   matchupHandler exEnv ''green'' ''abc'' ''1'' =
     ([GetLeagueInfo, GetBoxscoreForWeek, GetTeamsAtWeek], Error 404 ''Matchup not found'') \<and>
   rosterHandler exEnv ''white'' ''abc'' = ([GetLeagueInfo], Error 500 ''socket hang up'')"
  by (simp add: rosterHandler_valid matchupHandler_valid validDivision_iff ex_fetch rosterResult_def
      matchupResult_def ex_teamBoxscore_none parseInt_ex ex_matchup)

text \<open>
  Witness of C9 as amended: the division \<open>Green\<close> is not valid.
\<close>

theorem invalid_division_rejected_first_witness:
  "\<not> validDivision ''Green'' \<and>
   leagueHandler exEnv ''Green'' = ([], Error 400 ''Invalid division'') \<and>
   rosterHandler exEnv ''Green'' ''1'' = ([], Error 400 ''Invalid division'') \<and>
   matchupHandler exEnv ''Green'' ''1'' ''2'' = ([], Error 400 ''Invalid division'') \<and>
   validDivision ''green'' \<and>
   status (snd (rosterHandler exEnv ''green'' ''abc'')) \<noteq> 400 \<and>
   parseInt ''abc'' = None \<and>
   rosterHandler exEnv ''green'' ''abc'' =
     ([GetLeagueInfo, GetBoxscoreForWeek, GetTeamsAtWeek], Error 404 ''Team not found'')"
proof -
  have i: "\<not> validDivision ''Green''" and v: "validDivision ''green''"
    by (simp_all add: validDivision_def)
  note ti = invalid_division_rejected_first [of "''Green''" exEnv "''1''" "''1''" "''2''"]
  note tv = invalid_division_rejected_first [of "''green''" exEnv "''abc''" _ _ _ _ _
      "[GetLeagueInfo, GetBoxscoreForWeek, GetTeamsAtWeek]" exBoxscores exTeams]
  from ti i have a: "leagueHandler exEnv ''Green'' = ([], Error 400 ''Invalid division'') \<and>
   rosterHandler exEnv ''Green'' ''1'' = ([], Error 400 ''Invalid division'') \<and>
   matchupHandler exEnv ''Green'' ''1'' ''2'' = ([], Error 400 ''Invalid division'')"
    by blast
  from tv v have b: "status (snd (rosterHandler exEnv ''green'' ''abc'')) \<noteq> 400"
    by blast
  from tv v parseInt_ex(5) ex_fetch(1) have c: "rosterHandler exEnv ''green'' ''abc'' =
     ([GetLeagueInfo, GetBoxscoreForWeek, GetTeamsAtWeek], Error 404 ''Team not found'')"
    by blast
  from i v a b c parseInt_ex(5) show ?thesis
    by (intro conjI) blast+
qed

text \<open>
  Witness of C10: the request names team 2 as home and team 1 as away; the boxscore
  stores team 1 as home.
\<close>

theorem matchup_sides_follow_boxscore_witness:
  "validDivision ''green'' \<and>
   matchup exBoxscores ''2'' ''1'' = Some (mkBox 1 2 101 88 exRosterA exRosterB) \<and>
   parseInt ''2'' = Some 2 \<and> parseInt ''1'' = Some 1 \<and>
   (\<exists>body. matchupHandler exEnv ''green'' ''2'' ''1'' =
       ([GetLeagueInfo, GetBoxscoreForWeek, GetTeamsAtWeek], Json body) \<and>
     mb_homeTeam body = ''Ants'' \<and> mb_homeOwner body = ''Pat'' \<and> mb_homeScore body = 101 \<and>
     mb_homeRoster body = formatRoster exRosterA \<and>
     mb_homeChampionships body = [''2019'', ''2021''] \<and>
     mb_awayTeam body = ''Bees'' \<and> mb_awayOwner body = ''Sam'' \<and> mb_awayScore body = 88 \<and>
     mb_awayRoster body = formatRoster exRosterB \<and> mb_awayChampionships body = [])"
proof -
  have v: "validDivision ''green''"
    by (simp add: validDivision_def)
  have names: "teamNameOf exTeams 1 = ''Ants''" "teamNameOf exTeams 2 = ''Bees''"
    by (simp_all add: teamNameOf_def exTeams_def orStr_def)
  have td: "teamsData exEnv = exRegistry"
    by (simp add: exEnv_def)
  have own: "ownerOf (ownerInfoOf exRegistry ''green'' ''1'') = ''Pat''"
    "ownerOf (ownerInfoOf exRegistry ''green'' ''2'') = ''Sam''"
    "championshipsOf (ownerInfoOf exRegistry ''green'' ''1'') = [''2019'', ''2021'']"
    "championshipsOf (ownerInfoOf exRegistry ''green'' ''2'') = []"
    by (simp_all add: exRegistry_lookup ownerOf_def championshipsOf_def orStr_def)
  from matchup_sides_follow_boxscore [OF v ex_fetch(1) ex_matchup(1) parseInt_ex(2) parseInt_ex(1)]
  have "\<exists>body. matchupHandler exEnv ''green'' ''2'' ''1'' =
       ([GetLeagueInfo, GetBoxscoreForWeek, GetTeamsAtWeek], Json body) \<and>
     mb_homeTeam body = ''Ants'' \<and> mb_homeOwner body = ''Pat'' \<and> mb_homeScore body = 101 \<and>
     mb_homeRoster body = formatRoster exRosterA \<and>
     mb_homeChampionships body = [''2019'', ''2021''] \<and>
     mb_awayTeam body = ''Bees'' \<and> mb_awayOwner body = ''Sam'' \<and> mb_awayScore body = 88 \<and>
     mb_awayRoster body = formatRoster exRosterB \<and> mb_awayChampionships body = []"
    by (simp add: names td own toString_digit)
  with v ex_matchup(1) parseInt_ex(1,2) show ?thesis
    by (intro conjI)
qed

end
